theory Spec2Isabelle
  imports Complex_Main
begin

section \<open>Values: compile-time arrays and graph tensors\<close>

text \<open>
  The operator lowerings of \<^verbatim>\<open>onnx2kerastl/reshape_layers.py\<close> read the values of a
  node's inputs out of the dictionary \<^verbatim>\<open>layers\<close> (the Environment), decide between a
  host-side computation and the emission of a node of the target graph, and store the
  result under the node's name. Exceptions are values of the type \<open>exn\<close>; the
  constructors that carry a string hold the message the source gives.
  \<open>NotModelled\<close> marks the few places where Python's behaviour is outside the typed
  universe of this development (for example the eager evaluation of an arbitrary
  target-graph expression); no theorem below counts it as an error of the program.
\<close>

datatype exn =
    AttributeError string
  | NotImplementedError string
  | Exception string
  | KeyError
  | IndexError
  | TypeError
  | ValueError
  | OverflowError
  | UnboundLocalError
  | AssertionError
  | NotModelled

text \<open>
  A numpy array: element type, shape and the elements in row-major order. An element is
  an integer, a float (idealised as a real number) or Python's \<^verbatim>\<open>None\<close> (in an array of
  dtype object).
\<close>

datatype elem = ENone | EInt int | EFloat real

datatype dtype = DInt32 | DInt64 | DFloat | DObject

datatype ndarray = NdArray (np_dtype: dtype) (np_shape: "nat list") (np_data: "elem list")

text \<open>One entry of the \<^verbatim>\<open>slice_spec\<close> of the slicing primitive: \<^verbatim>\<open>{'start', 'step', 'stop'}\<close>.\<close>

datatype slice = Slice (sl_start: elem) (sl_step: elem) (sl_stop: elem)

datatype resize_method = NEAREST_NEIGHBOR | BICUBIC | BILINEAR

text \<open>
  An entry of the target list of a dynamic reshape: a literal, or the run-time size of
  axis \<open>i\<close> of the reshaped tensor (\<^verbatim>\<open>tf.shape(x)[i]\<close>).
\<close>

datatype dim_spec = DimLit int | DimOfShape nat

text \<open>
  A tensor of the target library: the node that produces it (\<open>handle\<close>), its static shape
  (\<open>None\<close> for a dimension that is not statically known) and whether it is a symbolic
  Keras tensor (\<open>is_keras\<close>) or an eagerly computed one. A \<open>val\<close> is what the
  Environment holds: a compile-time array or a tensor.

  The primitives of the target library are not part of the module. A call of one of them
  is modelled by the node it adds to the graph (a constructor of \<open>op\<close> applied to the
  arguments of the call) together with the static shape the library derives for the
  result; shapes have a known number of axes, as in the data model of the spec. The
  argument checks of the library are modelled for the transposition primitives; the
  other primitives are taken to accept their arguments.
\<close>

datatype tensor = Tensor (handle: op) (tshape: "int option list") (is_keras: bool)
and op =
    OpInput string
  | OpConstant ndarray string
  | OpTranspose val "int list"
  | OpPermute "int list" "string option" val
  | OpEmbedding "int option" "int option" val string val
  | OpGather tensor val int
  | OpConcat "val list" int string
  | OpKerasConcatenate "val list" int string
  | OpLambdaCHW string tensor
  | OpKerasReshape ndarray string val
  | OpReshapeDyn tensor "dim_spec list"
  | OpReshape tensor ndarray string
  | OpFlatten "string option" val
  | OpExpandDims val elem
  | OpGetItem tensor "slice list"
  | OpSqueeze tensor "int option"
  | OpImageResize tensor "int list" resize_method
  | OpMulOnes tensor ndarray
  | OpTile val val
and val = Constant ndarray | Symbolic tensor

text \<open>The function stored in \<^verbatim>\<open>lambda_func\<close>: the only closure the module creates.\<close>

datatype closure = TransposeTo_0312

subsection \<open>Static shapes\<close>

definition np_ndim :: "ndarray \<Rightarrow> nat" where
  "np_ndim a = length (np_shape a)"

definition val_shape :: "val \<Rightarrow> int option list" where
  "val_shape v = (case v of
      Constant a \<Rightarrow> map (\<lambda>d. Some (int d)) (np_shape a)
    | Symbolic t \<Rightarrow> tshape t)"

definition val_is_keras :: "val \<Rightarrow> bool" where
  "val_is_keras v = (case v of Constant a \<Rightarrow> False | Symbolic t \<Rightarrow> is_keras t)"

text \<open>The dimension at a position of a static shape; unknown outside the shape.\<close>

definition dim_at :: "int option list \<Rightarrow> int \<Rightarrow> int option" where
  "dim_at s i = (if 0 \<le> i \<and> i < int (length s) then s ! nat i else None)"

text \<open>Python's normalisation of an axis that may be negative.\<close>

definition norm_axis :: "int \<Rightarrow> nat \<Rightarrow> int" where
  "norm_axis ax n = (if ax < 0 then ax + int n else ax)"

section \<open>The helpers of \<^verbatim>\<open>utils.py\<close>\<close>

text \<open>
  Modelled from the spec: \<^verbatim>\<open>is_numpy\<close> of \<^verbatim>\<open>onnx2kerastl/utils.py\<close>, which is not among
  the sources. The spec calls a value that passes the test a compile-time array.
\<close>

definition is_numpy :: "val \<Rightarrow> bool" where
  "is_numpy v = (case v of Constant a \<Rightarrow> True | Symbolic t \<Rightarrow> False)"

text \<open>The library's \<^verbatim>\<open>tf.constant(obj, name=name)\<close>: an eager tensor of the array's shape.\<close>

definition tf_constant :: "ndarray \<Rightarrow> string \<Rightarrow> tensor" where
  "tf_constant a name =
     Tensor (OpConstant a name) (map (\<lambda>d. Some (int d)) (np_shape a)) False"

text \<open>
  Modelled from the spec: \<^verbatim>\<open>ensure_tf_type\<close> of \<^verbatim>\<open>onnx2kerastl/utils.py\<close>, which is not
  among the sources. The spec says that the operand is materialised as a target-graph
  tensor: an array becomes a constant tensor, a tensor is returned as it is.
\<close>

definition ensure_tf_type :: "val \<Rightarrow> string \<Rightarrow> tensor" where
  "ensure_tf_type v name = (case v of Constant a \<Rightarrow> tf_constant a name | Symbolic t \<Rightarrow> t)"

section \<open>The state of a lowering call\<close>

text \<open>
  A node exposes the ordered list of the names of its inputs. The attributes of the node
  are the dictionary \<^verbatim>\<open>params\<close>: one optional field per key the module reads, \<open>None\<close> when
  the key is absent. \<^verbatim>\<open>params['axes']\<close> holds a list of integers when it comes from the
  node, and a value of the Environment after the unsqueeze lowering has overwritten it.
\<close>

record node =
  input :: "string list"

datatype axes_attr = AxesList "int list" | AxesValue val

record params =
  perm :: "int list option"
  axis :: "int option"
  axes :: "axes_attr option"
  is_embedding :: bool
  change_ordering :: bool
  starts :: "int list option"
  ends :: "int list option"
  steps :: "int list option"
  mode :: "string option"

text \<open>
  A lowering routine mutates \<^verbatim>\<open>layers\<close>, \<^verbatim>\<open>lambda_func\<close> and \<^verbatim>\<open>params\<close> in place and
  logs; the model passes them as a state and returns the state together with the
  exception raised, if any, so that what was written before a raise stays visible.
  Of the log only the warnings are kept.
\<close>

record conv_state =
  cs_params :: params
  layers :: "string \<rightharpoonup> val"
  lambda_func :: "string \<rightharpoonup> closure"
  warnings :: "string list"

type_synonym outcome = "exn option \<times> conv_state"

text \<open>\<^verbatim>\<open>node.input[i]\<close> and \<^verbatim>\<open>layers[name]\<close>, with the exceptions of Python.\<close>

definition node_input :: "node \<Rightarrow> nat \<Rightarrow> exn + string" where
  "node_input nd i = (if i < length (input nd) then Inr (input nd ! i) else Inl IndexError)"

definition layers_get :: "(string \<rightharpoonup> val) \<Rightarrow> string \<Rightarrow> exn + val" where
  "layers_get ls name = (case ls name of None \<Rightarrow> Inl KeyError | Some v \<Rightarrow> Inr v)"

definition input_val :: "node \<Rightarrow> (string \<rightharpoonup> val) \<Rightarrow> nat \<Rightarrow> exn + val" where
  "input_val nd ls i =
     (case node_input nd i of Inl e \<Rightarrow> Inl e | Inr name \<Rightarrow> layers_get ls name)"

definition set_layer :: "string \<Rightarrow> val \<Rightarrow> conv_state \<Rightarrow> conv_state" where
  "set_layer name v st = st\<lparr>layers := (layers st)(name \<mapsto> v)\<rparr>"

definition warn :: "string \<Rightarrow> conv_state \<Rightarrow> conv_state" where
  "warn msg st = st\<lparr>warnings := warnings st @ [msg]\<rparr>"

section \<open>Host-side array operations\<close>

text \<open>
  The numpy operations the module calls, on the row-major representation. Comparison of
  elements is Python's \<^verbatim>\<open>==\<close>: \<^verbatim>\<open>None\<close> equals only \<^verbatim>\<open>None\<close>, numbers compare by value.
\<close>

definition elem_num :: "elem \<Rightarrow> real option" where
  "elem_num e = (case e of ENone \<Rightarrow> None | EInt i \<Rightarrow> Some (real_of_int i) | EFloat r \<Rightarrow> Some r)"

definition elem_eq :: "elem \<Rightarrow> elem \<Rightarrow> bool" where
  "elem_eq a b = (case (elem_num a, elem_num b) of
      (None, None) \<Rightarrow> True
    | (Some x, Some y) \<Rightarrow> x = y
    | _ \<Rightarrow> False)"

text \<open>Python's \<^verbatim>\<open>a < b\<close>: a \<^verbatim>\<open>TypeError\<close> when an operand is \<^verbatim>\<open>None\<close>.\<close>

definition elem_less :: "elem \<Rightarrow> elem \<Rightarrow> exn + bool" where
  "elem_less a b = (case (elem_num a, elem_num b) of
      (Some x, Some y) \<Rightarrow> Inr (x < y)
    | _ \<Rightarrow> Inl TypeError)"

text \<open>
  \<^verbatim>\<open>np.array(xs)\<close> of a flat Python list: the element type is inferred from the entries.
\<close>

definition infer_dtype :: "elem list \<Rightarrow> dtype" where
  "infer_dtype es =
     (if es = [] then DFloat
      else if list_ex (\<lambda>e. e = ENone) es then DObject
      else if list_ex (\<lambda>e. case e of EFloat r \<Rightarrow> True | _ \<Rightarrow> False) es then DFloat
      else DInt64)"

definition np_array :: "elem list \<Rightarrow> ndarray" where
  "np_array es = NdArray (infer_dtype es) [length es] es"

text \<open>\<^verbatim>\<open>len(a)\<close> and the iteration over an array (of one dimension).\<close>

definition np_len :: "ndarray \<Rightarrow> exn + nat" where
  "np_len a = (case np_shape a of [] \<Rightarrow> Inl TypeError | n # _ \<Rightarrow> Inr n)"

definition np_list :: "ndarray \<Rightarrow> exn + elem list" where
  "np_list a = (case np_shape a of
      [] \<Rightarrow> Inl TypeError
    | [n] \<Rightarrow> Inr (np_data a)
    | _ \<Rightarrow> Inl NotModelled)"

text \<open>
  \<^verbatim>\<open>a.astype(np.int32)\<close> and \<^verbatim>\<open>np.int32(a)\<close>: \<^verbatim>\<open>None\<close> cannot be converted
  (\<^verbatim>\<open>TypeError\<close>), a float is truncated towards zero, an integer array wraps around.
  The conversion of a Python integer outside the 32-bit range is not modelled.
\<close>

definition trunc :: "real \<Rightarrow> int" where
  "trunc r = (if 0 \<le> r then \<lfloor>r\<rfloor> else \<lceil>r\<rceil>)"

definition wrap32 :: "int \<Rightarrow> int" where
  "wrap32 i = (i + 2147483648) mod 4294967296 - 2147483648"

definition in_int32 :: "int \<Rightarrow> bool" where
  "in_int32 i = (- 2147483648 \<le> i \<and> i \<le> 2147483647)"

definition elem_int32 :: "dtype \<Rightarrow> elem \<Rightarrow> exn + elem" where
  "elem_int32 dt e = (case e of
      ENone \<Rightarrow> Inl TypeError
    | EInt i \<Rightarrow> (if dt = DObject
                 then (if in_int32 i then Inr (EInt i) else Inl NotModelled)
                 else Inr (EInt (wrap32 i)))
    | EFloat r \<Rightarrow> (if in_int32 (trunc r) then Inr (EInt (trunc r)) else Inl NotModelled))"

fun map_res :: "('a \<Rightarrow> exn + 'b) \<Rightarrow> 'a list \<Rightarrow> exn + 'b list" where
  "map_res f [] = Inr []"
| "map_res f (x # xs) =
     (case f x of
        Inl e \<Rightarrow> Inl e
      | Inr y \<Rightarrow> (case map_res f xs of Inl e \<Rightarrow> Inl e | Inr ys \<Rightarrow> Inr (y # ys)))"

definition astype_int32 :: "ndarray \<Rightarrow> exn + ndarray" where
  "astype_int32 a =
     (case map_res (elem_int32 (np_dtype a)) (np_data a) of
        Inl e \<Rightarrow> Inl e
      | Inr es \<Rightarrow> Inr (NdArray DInt32 (np_shape a) es))"

text \<open>
  \<^verbatim>\<open>a[idx]\<close> with an integer array \<open>idx\<close>: every index selects the sub-array at that
  position of the first axis (a negative index counts from the end), and the result has
  the shape of \<open>idx\<close> followed by the remaining axes of \<open>a\<close>.
\<close>

definition chunk :: "nat \<Rightarrow> 'a list \<Rightarrow> nat \<Rightarrow> 'a list" where
  "chunk sz xs i = take sz (drop (i * sz) xs)"

definition index_pos :: "nat \<Rightarrow> elem \<Rightarrow> exn + nat" where
  "index_pos n e = (case e of
      EInt i \<Rightarrow> (let j = norm_axis i n
                 in if 0 \<le> j \<and> j < int n then Inr (nat j) else Inl IndexError)
    | _ \<Rightarrow> Inl IndexError)"

definition np_take0 :: "ndarray \<Rightarrow> ndarray \<Rightarrow> exn + ndarray" where
  "np_take0 a idx =
     (case np_shape a of
        [] \<Rightarrow> Inl IndexError
      | n # rest \<Rightarrow>
         (if np_dtype idx \<noteq> DInt32 \<and> np_dtype idx \<noteq> DInt64 then Inl IndexError
          else case map_res (index_pos n) (np_data idx) of
            Inl e \<Rightarrow> Inl e
          | Inr js \<Rightarrow>
              Inr (NdArray (np_dtype a) (np_shape idx @ rest)
                     (concat (map (chunk (prod_list rest) (np_data a)) js)))))"

text \<open>
  \<^verbatim>\<open>np.transpose(a, axes=perm)\<close>: \<^verbatim>\<open>ValueError\<close> unless \<open>perm\<close> is a permutation of
  the axes; the element at position \<open>j\<close> of the result is the element of \<open>a\<close> whose
  index on axis \<open>perm[k]\<close> is \<open>j[k]\<close>.
\<close>

definition valid_perm :: "int list \<Rightarrow> nat \<Rightarrow> bool" where
  "valid_perm p n = (length p = n \<and> distinct p \<and> list_all (\<lambda>i. 0 \<le> i \<and> i < int n) p)"

definition strides :: "nat list \<Rightarrow> nat list" where
  "strides shp = map (\<lambda>k. prod_list (drop (Suc k) shp)) [0..<length shp]"

fun all_indices :: "nat list \<Rightarrow> nat list list" where
  "all_indices [] = [[]]"
| "all_indices (d # ds) = concat (map (\<lambda>i. map ((#) i) (all_indices ds)) [0..<d])"

definition np_transpose :: "ndarray \<Rightarrow> int list \<Rightarrow> exn + ndarray" where
  "np_transpose a p =
     (let q = map (\<lambda>i. norm_axis i (np_ndim a)) p in
      if \<not> valid_perm q (np_ndim a) then Inl ValueError
      else
        (let shp = map (\<lambda>i. np_shape a ! nat i) q;
             offset = (\<lambda>j. sum_list (map2 (\<lambda>jk pk. jk * (strides (np_shape a) ! nat pk)) j q))
         in Inr (NdArray (np_dtype a) shp (map (\<lambda>j. np_data a ! offset j) (all_indices shp)))))"

text \<open>
  Python's slice \<^verbatim>\<open>start:stop:step\<close> on a sequence of length \<open>n\<close>: the positions it
  selects, in order. A bound is an integer or \<^verbatim>\<open>None\<close>.
\<close>

definition slice_bound :: "elem \<Rightarrow> exn + int option" where
  "slice_bound e = (case e of ENone \<Rightarrow> Inr None | EInt i \<Rightarrow> Inr (Some i) | EFloat r \<Rightarrow> Inl TypeError)"

definition slice_indices :: "nat \<Rightarrow> int option \<Rightarrow> int option \<Rightarrow> int option \<Rightarrow> exn + nat list" where
  "slice_indices len start stop step =
     (let st = (case step of None \<Rightarrow> 1 | Some s \<Rightarrow> s) in
      if st = 0 then Inl ValueError
      else
        (let n = int len;
             lower = (if st < 0 then - 1 else 0);
             upper = (if st < 0 then n - 1 else n);
             clamp = (\<lambda>v. if v < 0 then max (v + n) lower else min v upper);
             b = (case start of None \<Rightarrow> (if st < 0 then upper else lower) | Some v \<Rightarrow> clamp v);
             e = (case stop of None \<Rightarrow> (if st < 0 then lower else upper) | Some v \<Rightarrow> clamp v);
             cnt = (if 0 < st then (if b < e then (e - b - 1) div st + 1 else 0)
                    else (if e < b then (b - e - 1) div (- st) + 1 else 0))
         in Inr (map (\<lambda>k. nat (b + int k * st)) [0..<nat cnt])))"

definition py_slice :: "nat \<Rightarrow> slice \<Rightarrow> exn + nat list" where
  "py_slice len s =
     (case slice_bound (sl_start s) of
        Inl e \<Rightarrow> Inl e
      | Inr b \<Rightarrow>
         (case slice_bound (sl_stop s) of
            Inl e \<Rightarrow> Inl e
          | Inr e \<Rightarrow>
             (case slice_bound (sl_step s) of
                Inl e' \<Rightarrow> Inl e'
              | Inr st \<Rightarrow> slice_indices len b e st)))"

text \<open>
  The selection of positions on the leading axes: \<open>sel\<close> holds one list of positions
  per sliced axis; the axes after them are taken whole.
\<close>

fun select_nd :: "nat list \<Rightarrow> 'a list \<Rightarrow> nat list list \<Rightarrow> 'a list" where
  "select_nd [] xs sel = xs"
| "select_nd (d # ds) xs [] = xs"
| "select_nd (d # ds) xs (ix # sel) =
     concat (map (\<lambda>i. select_nd ds (chunk (prod_list ds) xs i) sel) ix)"

text \<open>\<^verbatim>\<open>a[start:stop:step]\<close>: a slice of the first axis.\<close>

definition np_slice :: "ndarray \<Rightarrow> slice \<Rightarrow> exn + ndarray" where
  "np_slice a s =
     (case np_shape a of
        [] \<Rightarrow> Inl IndexError
      | n # rest \<Rightarrow>
         (case py_slice n s of
            Inl e \<Rightarrow> Inl e
          | Inr ix \<Rightarrow> Inr (NdArray (np_dtype a) (length ix # rest)
                             (select_nd (np_shape a) (np_data a) [ix]))))"

text \<open>The slicing of every axis by its own entry of a slice spec, as the target library computes it.\<close>

definition slice_all :: "ndarray \<Rightarrow> slice list \<Rightarrow> exn + ndarray" where
  "slice_all a spec =
     (if length spec \<noteq> np_ndim a then Inl NotModelled
      else case map_res (\<lambda>(n, s). py_slice n s) (zip (np_shape a) spec) of
        Inl e \<Rightarrow> Inl e
      | Inr sel \<Rightarrow> Inr (NdArray (np_dtype a) (map length sel)
                          (select_nd (np_shape a) (np_data a) sel)))"

text \<open>
  \<^verbatim>\<open>t.numpy()\<close>: a symbolic Keras tensor has no such attribute; an eager tensor gives its
  value, which is modelled for a constant and for a slice of a constant.
\<close>

definition tensor_numpy :: "tensor \<Rightarrow> exn + ndarray" where
  "tensor_numpy t =
     (if is_keras t then Inl (AttributeError ''numpy'')
      else case handle t of
        OpConstant a name \<Rightarrow> Inr a
      | OpGetItem x spec \<Rightarrow>
          (case handle x of OpConstant a name \<Rightarrow> slice_all a spec | _ \<Rightarrow> Inl NotModelled)
      | _ \<Rightarrow> Inl NotModelled)"

section \<open>Squeeze\<close>

text \<open>
  \<^verbatim>\<open>tf.squeeze(x, axis=axis)\<close>: the axis is removed, or every axis of static size 1 when
  no axis is given.
\<close>

definition tf_squeeze :: "tensor \<Rightarrow> int option \<Rightarrow> tensor" where
  "tf_squeeze x ax =
     Tensor (OpSqueeze x ax)
       (case ax of
          None \<Rightarrow> filter (\<lambda>d. d \<noteq> Some 1) (tshape x)
        | Some a \<Rightarrow> (let k = nat (norm_axis a (length (tshape x)))
                     in take k (tshape x) @ drop (Suc k) (tshape x)))
       (is_keras x)"

text \<open>
  The source:
  \<^verbatim>\<open>
    if len(node.input) != 1:
        assert AttributeError('More than 1 input for squeeze layer.')
    input_0 = ensure_tf_type(layers[node.input[0]], name="%s_const" % keras_name)
    axis = None
    if 'axes' in params:
        axis = params['axes'][0]
    layers[node_name] = tf.squeeze(input_0, axis=axis)
  \<close>
  The \<^verbatim>\<open>assert\<close> is given an exception object, which is true, so it never fails and
  the routine goes on whatever the number of inputs is.
\<close>

definition py_assert :: "bool \<Rightarrow> exn option" where
  "py_assert b = (if b then None else Some AssertionError)"

text \<open>\<^verbatim>\<open>params['axes'][0]\<close>: the first entry of the list, or of the array it was replaced by.\<close>

definition np_item :: "ndarray \<Rightarrow> int \<Rightarrow> exn + elem" where
  "np_item a i =
     (case np_shape a of
        [] \<Rightarrow> Inl IndexError
      | [n] \<Rightarrow> (let j = norm_axis i n
                in if 0 \<le> j \<and> j < int n \<and> nat j < length (np_data a)
                   then Inr (np_data a ! nat j) else Inl IndexError)
      | _ \<Rightarrow> Inl NotModelled)"

definition axes_first :: "axes_attr \<Rightarrow> exn + elem" where
  "axes_first ax = (case ax of
      AxesList xs \<Rightarrow> (case xs of [] \<Rightarrow> Inl IndexError | x # _ \<Rightarrow> Inr (EInt x))
    | AxesValue (Constant a) \<Rightarrow> np_item a 0
    | AxesValue (Symbolic t) \<Rightarrow> Inl NotModelled)"

definition elem_axis :: "elem \<Rightarrow> exn + int" where
  "elem_axis e = (case e of EInt i \<Rightarrow> Inr i | _ \<Rightarrow> Inl TypeError)"

definition convert_squeeze :: "node \<Rightarrow> string \<Rightarrow> string \<Rightarrow> conv_state \<Rightarrow> outcome" where
  "convert_squeeze nd node_name keras_name st =
     (case (if length (input nd) \<noteq> 1
            then py_assert True
            else None) of
        Some e \<Rightarrow> (Some e, st)
      | None \<Rightarrow>
     (case input_val nd (layers st) 0 of
        Inl e \<Rightarrow> (Some e, st)
      | Inr v \<Rightarrow>
     (let input_0 = ensure_tf_type v (keras_name @ ''_const'') in
      case axes (cs_params st) of
        None \<Rightarrow> (None, set_layer node_name (Symbolic (tf_squeeze input_0 None)) st)
      | Some ax \<Rightarrow>
         (case axes_first ax of
            Inl e \<Rightarrow> (Some e, st)
          | Inr a \<Rightarrow>
             (case elem_axis a of
                Inl e \<Rightarrow> (Some e, st)
              | Inr k \<Rightarrow>
                 (None, set_layer node_name (Symbolic (tf_squeeze input_0 (Some k))) st))))))"

section \<open>Transpose\<close>

text \<open>
  \<^verbatim>\<open>tf.transpose(x, perm=perm)\<close> and \<^verbatim>\<open>keras.layers.Permute(dims, name=name)(x)\<close>. The
  library refuses a \<open>perm\<close> that is not a permutation of the axes of \<open>x\<close>, and \<open>dims\<close>
  that are not a permutation of \<open>1..n\<close> for an input of \<open>n + 1\<close> axes; \<open>Permute\<close> leaves
  axis 0 in place and puts axis \<open>dims[k]\<close> of the input at position \<open>k + 1\<close>.
\<close>

definition tf_transpose :: "val \<Rightarrow> int list \<Rightarrow> exn + tensor" where
  "tf_transpose x p =
     (if \<not> valid_perm p (length (val_shape x)) then Inl ValueError
      else Inr (Tensor (OpTranspose x p) (map (dim_at (val_shape x)) p) (val_is_keras x)))"

definition keras_Permute :: "int list \<Rightarrow> string option \<Rightarrow> val \<Rightarrow> exn + tensor" where
  "keras_Permute dims name x =
     (if \<not> valid_perm (map (\<lambda>d. d - 1) dims) (length dims)
         \<or> length (val_shape x) \<noteq> Suc (length dims)
      then Inl ValueError
      else Inr (Tensor (OpPermute dims name x)
                  (dim_at (val_shape x) 0 # map (dim_at (val_shape x)) dims)
                  (val_is_keras x)))"

text \<open>
  The source:
  \<^verbatim>\<open>
    input_name = node.input[0]
    if params['perm'][0] != 0:
        logger.warning('Can\'t permute batch dimension. Result may be wrong.')
        if is_numpy(layers[input_name]):
            logger.warning('Transposing numpy array.')
            layers[node_name] = np.transpose(layers[input_name], axes=params['perm'])
        else:
            layers[node_name] = tf.transpose(layers[input_name], perm=params['perm'])
    else:
        permute = keras.layers.Permute(params['perm'][1:], name=keras_name)
        layers[node_name] = permute(layers[input_name])
  \<close>
\<close>

definition store :: "string \<Rightarrow> exn + val \<Rightarrow> conv_state \<Rightarrow> outcome" where
  "store name r st = (case r of Inl e \<Rightarrow> (Some e, st) | Inr v \<Rightarrow> (None, set_layer name v st))"

definition sym :: "exn + tensor \<Rightarrow> exn + val" where
  "sym r = (case r of Inl e \<Rightarrow> Inl e | Inr t \<Rightarrow> Inr (Symbolic t))"

definition const :: "exn + ndarray \<Rightarrow> exn + val" where
  "const r = (case r of Inl e \<Rightarrow> Inl e | Inr a \<Rightarrow> Inr (Constant a))"

definition convert_transpose :: "node \<Rightarrow> string \<Rightarrow> string \<Rightarrow> conv_state \<Rightarrow> outcome" where
  "convert_transpose nd node_name keras_name st =
     (case node_input nd 0 of
        Inl e \<Rightarrow> (Some e, st)
      | Inr input_name \<Rightarrow>
     (case perm (cs_params st) of
        None \<Rightarrow> (Some KeyError, st)
      | Some [] \<Rightarrow> (Some IndexError, st)
      | Some (p0 # ps) \<Rightarrow>
         (if p0 \<noteq> 0 then
            (let st1 = warn ''Can't permute batch dimension. Result may be wrong.'' st in
             case layers_get (layers st1) input_name of
               Inl e \<Rightarrow> (Some e, st1)
             | Inr (Constant a) \<Rightarrow>
                 (let st2 = warn ''Transposing numpy array.'' st1
                  in store node_name (const (np_transpose a (p0 # ps))) st2)
             | Inr (Symbolic t) \<Rightarrow>
                 store node_name (sym (tf_transpose (Symbolic t) (p0 # ps))) st1)
          else
            (case layers_get (layers st) input_name of
               Inl e \<Rightarrow> (Some e, st)
             | Inr v \<Rightarrow> store node_name (sym (keras_Permute ps (Some keras_name) v)) st))))"

section \<open>Shape\<close>

text \<open>
  The source:
  \<^verbatim>\<open>
    input_0 = ensure_tf_type(layers[node.input[0]], name="%s_const" % keras_name)
    shapes = []
    for i in input_0.shape:
        if i is not None:
            shapes.append(i)
        else:
            shapes.append(None)
    layers[node_name] = np.array(shapes)
  \<close>
\<close>

definition shape_entry :: "int option \<Rightarrow> elem" where
  "shape_entry i = (case i of Some d \<Rightarrow> EInt d | None \<Rightarrow> ENone)"

definition convert_shape :: "node \<Rightarrow> string \<Rightarrow> string \<Rightarrow> conv_state \<Rightarrow> outcome" where
  "convert_shape nd node_name keras_name st =
     (case input_val nd (layers st) 0 of
        Inl e \<Rightarrow> (Some e, st)
      | Inr v \<Rightarrow>
         (let input_0 = ensure_tf_type v (keras_name @ ''_const'');
              shapes = map shape_entry (tshape input_0)
          in (None, set_layer node_name (Constant (np_array shapes)) st)))"

section \<open>Gather\<close>

text \<open>
  A subscript of the dictionary \<^verbatim>\<open>layers\<close>. Its keys are the names of the nodes. A key
  that is a tuple holding a slice object, as in \<^verbatim>\<open>layers[:, name]\<close>, cannot be hashed:
  the lookup raises \<^verbatim>\<open>TypeError\<close> (from Python 3.12 on a slice can be hashed and the
  lookup raises \<^verbatim>\<open>KeyError\<close> instead; in both cases nothing is returned).
\<close>

datatype pykey = KeyName string | KeySlice | KeyTuple "pykey list"

fun hashable :: "pykey \<Rightarrow> bool" where
  "hashable (KeyName name) = True"
| "hashable KeySlice = False"
| "hashable (KeyTuple ks) = list_all hashable ks"

definition dict_getitem :: "(string \<rightharpoonup> val) \<Rightarrow> pykey \<Rightarrow> exn + val" where
  "dict_getitem ls k =
     (if \<not> hashable k then Inl TypeError
      else case k of KeyName name \<Rightarrow> layers_get ls name | _ \<Rightarrow> Inl KeyError)"

text \<open>The subscript \<^verbatim>\<open>x[i]\<close> of one value of the Environment by another.\<close>

definition val_index :: "val \<Rightarrow> val \<Rightarrow> exn + ndarray" where
  "val_index x i = (case (x, i) of
      (Constant a, Constant idx) \<Rightarrow> np_take0 a idx
    | _ \<Rightarrow> Inl NotModelled)"

text \<open>
  The library primitives of the graph path: \<^verbatim>\<open>Embedding(input_dim, output_dim,
  weights=[w], name=name)(indices)\<close> and \<^verbatim>\<open>tf.gather(x, indices, axis=axis)\<close>.
\<close>

definition keras_Embedding ::
  "int option \<Rightarrow> int option \<Rightarrow> val \<Rightarrow> string \<Rightarrow> val \<Rightarrow> tensor" where
  "keras_Embedding input_dim output_dim w name indices =
     Tensor (OpEmbedding input_dim output_dim w name indices)
       (val_shape indices @ [output_dim]) (val_is_keras indices)"

definition tf_gather :: "tensor \<Rightarrow> val \<Rightarrow> int \<Rightarrow> tensor" where
  "tf_gather x indices ax =
     (let k = nat (norm_axis ax (length (tshape x)))
      in Tensor (OpGather x indices ax)
           (take k (tshape x) @ val_shape indices @ drop (Suc k) (tshape x))
           (is_keras x \<or> val_is_keras indices))"

text \<open>
  The source of the constant-fold path:
  \<^verbatim>\<open>
    if params['axis'] == 0:
        gathered = np.array(layers[node.input[0]][layers[node.input[1]]])
    elif params['axis'] == 1:
        gathered = np.array(layers[:, node.input[0]][layers[node.input[1]]])
    elif params['axis'] == 2:
        gathered = np.array(layers[:, :, node.input[0]][layers[node.input[1]]])
    elif params['axis'] == 3:
        gathered = np.array(layers[:, :, :, node.input[0]][layers[node.input[1]]])
    else:
        raise AttributeError('Can\'t gather by axis more than 3.')
    if gathered.dtype == np.object0:
        try:
            gathered = gathered.astype(np.int32)
        except TypeError:
            pass
    layers[node_name] = gathered
  \<close>
  For the axes 1, 2 and 3 the subscript is applied to the dictionary \<^verbatim>\<open>layers\<close>, not to
  the array \<^verbatim>\<open>layers[node.input[0]]\<close>.
\<close>

definition gather_subscript :: "(string \<rightharpoonup> val) \<Rightarrow> pykey \<Rightarrow> val \<Rightarrow> exn + ndarray" where
  "gather_subscript ls k i =
     (case dict_getitem ls k of Inl e \<Rightarrow> Inl e | Inr x \<Rightarrow> val_index x i)"

definition gather_numpy :: "string \<Rightarrow> val \<Rightarrow> conv_state \<Rightarrow> exn + ndarray" where
  "gather_numpy name0 v1 st =
     (case axis (cs_params st) of
        None \<Rightarrow> Inl KeyError
      | Some ax \<Rightarrow>
         (if ax = 0 then gather_subscript (layers st) (KeyName name0) v1
          else if ax = 1 then
            gather_subscript (layers st) (KeyTuple [KeySlice, KeyName name0]) v1
          else if ax = 2 then
            gather_subscript (layers st) (KeyTuple [KeySlice, KeySlice, KeyName name0]) v1
          else if ax = 3 then
            gather_subscript (layers st)
              (KeyTuple [KeySlice, KeySlice, KeySlice, KeyName name0]) v1
          else Inl (AttributeError ''Can't gather by axis more than 3.'')))"

definition gather_astype :: "ndarray \<Rightarrow> exn + ndarray" where
  "gather_astype gathered =
     (if np_dtype gathered = DObject then
        (case astype_int32 gathered of
           Inl TypeError \<Rightarrow> Inr gathered
         | Inl e \<Rightarrow> Inl e
         | Inr g \<Rightarrow> Inr g)
      else Inr gathered)"

text \<open>
  The source of the graph path:
  \<^verbatim>\<open>
    input_0 = ensure_tf_type(layers[node.input[0]], name="%s_const" % keras_name)
    if not isinstance(layers[node.input[1]], np.ndarray) and \
            K.is_keras_tensor(layers[node.input[1]]):
        indices = layers[node.input[1]]
    else:
        indices = layers[node.input[1]]
        if not is_numpy(layers[node.input[1]]):
            indices = indices.numpy()
        indices = indices.tolist()
    if "is_embedding" in params:
        if len(input_0.shape) == 2:
            emb = tf.keras.layers.Embedding(input_0.shape[0], input_0.shape[1],
                                            weights=[layers[node.input[0]]], name=keras_name)
            if isinstance(indices, list):
                layers[node_name] = emb(np.array(indices))
            else:
                layers[node_name] = emb(indices)
        else:
            raise AttributeError("Cannot transform gather into embedding with non 2D array")
    else:
        layers[node_name] = tf.gather(input_0, indices, axis=params['axis'])
  \<close>
  The nested list \<^verbatim>\<open>indices.tolist()\<close> is represented by the array it lists, and
  \<^verbatim>\<open>np.array\<close> of that list by the same array with the element type inferred again.
\<close>

definition gather_indices :: "val \<Rightarrow> exn + val" where
  "gather_indices v1 = (case v1 of
      Constant a \<Rightarrow> Inr (Constant a)
    | Symbolic t \<Rightarrow>
        (if is_keras t then Inr (Symbolic t)
         else case tensor_numpy t of Inl e \<Rightarrow> Inl e | Inr a \<Rightarrow> Inr (Constant a)))"

definition relist :: "val \<Rightarrow> val" where
  "relist v = (case v of
      Constant a \<Rightarrow>
        (if np_shape a = [] then Constant a
         else Constant (NdArray (infer_dtype (np_data a)) (np_shape a) (np_data a)))
    | Symbolic t \<Rightarrow> Symbolic t)"

definition gather_graph ::
  "string \<Rightarrow> string \<Rightarrow> val \<Rightarrow> val \<Rightarrow> conv_state \<Rightarrow> outcome" where
  "gather_graph node_name keras_name v0 v1 st =
     (let input_0 = ensure_tf_type v0 (keras_name @ ''_const'') in
      case gather_indices v1 of
        Inl e \<Rightarrow> (Some e, st)
      | Inr indices \<Rightarrow>
         (if is_embedding (cs_params st) then
            (if length (tshape input_0) = 2 then
               (None, set_layer node_name
                  (Symbolic (keras_Embedding (tshape input_0 ! 0) (tshape input_0 ! 1) v0
                               keras_name (relist indices))) st)
             else (Some (AttributeError
                     ''Cannot transform gather into embedding with non 2D array''), st))
          else
            (case axis (cs_params st) of
               None \<Rightarrow> (Some KeyError, st)
             | Some ax \<Rightarrow>
                 (None, set_layer node_name (Symbolic (tf_gather input_0 indices ax)) st))))"

text \<open>
  The condition that selects the path:
  \<^verbatim>\<open>
    if is_numpy(layers[node.input[0]]) and is_numpy(layers[node.input[1]]) \
            and not 'is_embedding' in params:
  \<close>
  The second operand is only looked up when the first is an array.
\<close>

definition convert_gather :: "node \<Rightarrow> string \<Rightarrow> string \<Rightarrow> conv_state \<Rightarrow> outcome" where
  "convert_gather nd node_name keras_name st =
     (case node_input nd 0 of
        Inl e \<Rightarrow> (Some e, st)
      | Inr name0 \<Rightarrow>
     (case layers_get (layers st) name0 of
        Inl e \<Rightarrow> (Some e, st)
      | Inr v0 \<Rightarrow>
         (if is_numpy v0 then
            (case input_val nd (layers st) 1 of
               Inl e \<Rightarrow> (Some e, st)
             | Inr v1 \<Rightarrow>
                 (if is_numpy v1 \<and> \<not> is_embedding (cs_params st) then
                    (case gather_numpy name0 v1 st of
                       Inl e \<Rightarrow> (Some e, st)
                     | Inr gathered \<Rightarrow> store node_name (const (gather_astype gathered)) st)
                  else gather_graph node_name keras_name v0 v1 st))
          else
            (case input_val nd (layers st) 1 of
               Inl e \<Rightarrow> (Some e, st)
             | Inr v1 \<Rightarrow> gather_graph node_name keras_name v0 v1 st))))"

section \<open>Reshape\<close>

text \<open>
  \<^verbatim>\<open>np.reshape(a, shape)\<close>: the new shape may hold one \<open>-1\<close>, which stands for the
  size that keeps the number of elements; \<^verbatim>\<open>ValueError\<close> when the sizes do not fit.
\<close>

definition np_reshape :: "ndarray \<Rightarrow> ndarray \<Rightarrow> exn + ndarray" where
  "np_reshape a shp =
     (if 1 < np_ndim shp then Inl TypeError
      else case map_res elem_axis (np_data shp) of
        Inl e \<Rightarrow> Inl e
      | Inr ds \<Rightarrow>
         (let others = filter (\<lambda>d. d \<noteq> - 1) ds;
              tot = int (length (np_data a)) in
          if list_ex (\<lambda>d. d < - 1) ds \<or> 1 < length ds - length others then Inl ValueError
          else if length others = length ds then
            (if prod_list ds = tot
             then Inr (NdArray (np_dtype a) (map nat ds) (np_data a)) else Inl ValueError)
          else if prod_list others = 0 \<or> tot mod prod_list others \<noteq> 0 then Inl ValueError
          else Inr (NdArray (np_dtype a)
                      (map (\<lambda>d. nat (if d = - 1 then tot div prod_list others else d)) ds)
                      (np_data a))))"

text \<open>
  The static shapes of the reshaping primitives. A target entry \<open>-1\<close> is known when the
  number of elements and the other entries are.
\<close>

definition known_size :: "int option list \<Rightarrow> int option" where
  "known_size s = (if list_all (\<lambda>d. d \<noteq> None) s then Some (prod_list (map the s)) else None)"

definition fill_wildcard :: "int option \<Rightarrow> int option list \<Rightarrow> int option list" where
  "fill_wildcard tot entries =
     map (\<lambda>e. if e = Some (- 1) then
                 (case (tot, known_size (filter (\<lambda>x. x \<noteq> Some (- 1)) entries)) of
                    (Some t, Some k) \<Rightarrow> (if k = 0 then None else Some (t div k))
                  | _ \<Rightarrow> None)
               else e) entries"

definition elem_dim :: "elem \<Rightarrow> int option" where
  "elem_dim e = (case e of EInt i \<Rightarrow> Some i | _ \<Rightarrow> None)"

text \<open>\<^verbatim>\<open>keras.layers.Lambda(target_layer, name=name)(x)\<close> with the transposition \<open>[0, 3, 1, 2]\<close>.\<close>

definition keras_Lambda_CHW :: "string \<Rightarrow> tensor \<Rightarrow> tensor" where
  "keras_Lambda_CHW name x =
     Tensor (OpLambdaCHW name x) (map (dim_at (tshape x)) [0, 3, 1, 2]) (is_keras x)"

text \<open>\<^verbatim>\<open>keras.layers.Reshape(target, name=name)(x)\<close>: the batch axis is kept.\<close>

definition keras_Reshape :: "ndarray \<Rightarrow> string \<Rightarrow> val \<Rightarrow> tensor" where
  "keras_Reshape target name x =
     Tensor (OpKerasReshape target name x)
       (dim_at (val_shape x) 0
          # fill_wildcard (known_size (tl (val_shape x))) (map elem_dim (np_data target)))
       (val_is_keras x)"

text \<open>\<^verbatim>\<open>keras.layers.Flatten(name=name)(x)\<close>: the axes after the batch axis become one.\<close>

definition keras_Flatten :: "string option \<Rightarrow> val \<Rightarrow> tensor" where
  "keras_Flatten name x =
     Tensor (OpFlatten name x) [dim_at (val_shape x) 0, known_size (tl (val_shape x))]
       (val_is_keras x)"

text \<open>\<^verbatim>\<open>tf.reshape(x, shape, name=name)\<close> with an array as the target.\<close>

definition tf_reshape :: "tensor \<Rightarrow> ndarray \<Rightarrow> string \<Rightarrow> tensor" where
  "tf_reshape x shp name =
     Tensor (OpReshape x shp name)
       (fill_wildcard (known_size (tshape x)) (map elem_dim (np_data shp))) (is_keras x)"

text \<open>
  \<^verbatim>\<open>tf.reshape(x, [*tf_shape[:i], -1, *tf_shape[j:]])\<close>, where \<^verbatim>\<open>tf_shape = tf.shape(x)\<close>
  is read when the graph runs.
\<close>

definition dim_spec_static :: "int option list \<Rightarrow> dim_spec \<Rightarrow> int option" where
  "dim_spec_static s d = (case d of DimLit k \<Rightarrow> Some k | DimOfShape i \<Rightarrow> dim_at s (int i))"

definition tf_reshape_dyn :: "tensor \<Rightarrow> dim_spec list \<Rightarrow> tensor" where
  "tf_reshape_dyn x target =
     Tensor (OpReshapeDyn x target)
       (fill_wildcard (known_size (tshape x)) (map (dim_spec_static (tshape x)) target))
       (is_keras x)"

text \<open>
  What the dynamic reshape computes when the graph runs on an input of the concrete
  shape \<open>s\<close>: the target list with the sizes read from \<open>s\<close> and the \<open>-1\<close> resolved.
\<close>

definition run_reshape_dyn :: "nat list \<Rightarrow> dim_spec list \<Rightarrow> exn + nat list" where
  "run_reshape_dyn s target =
     (let ds = map (\<lambda>d. case d of DimLit k \<Rightarrow> k
                              | DimOfShape i \<Rightarrow> (if i < length s then int (s ! i) else - 2)) target;
          others = filter (\<lambda>d. d \<noteq> - 1) ds;
          tot = int (prod_list s) in
      if list_ex (\<lambda>d. d < - 1) ds \<or> 1 < length ds - length others then Inl ValueError
      else if length others = length ds then
        (if prod_list ds = tot then Inr (map nat ds) else Inl ValueError)
      else if prod_list others = 0 \<or> tot mod prod_list others \<noteq> 0 then Inl ValueError
      else Inr (map (\<lambda>d. nat (if d = - 1 then tot div prod_list others else d)) ds))"

text \<open>What \<^verbatim>\<open>keras.layers.Flatten\<close> computes on an input of the concrete shape \<open>s\<close>.\<close>

definition run_flatten :: "nat list \<Rightarrow> nat list" where
  "run_flatten s = (case s of [] \<Rightarrow> [] | b # rest \<Rightarrow> [b, prod_list rest])"

text \<open>
  The elementwise comparison \<^verbatim>\<open>np.array(xs) == a\<close> of a list with an array of one
  dimension (a list of one entry is broadcast), and \<^verbatim>\<open>np.argmin\<close> and \<^verbatim>\<open>np.argmax\<close> of
  the result: the position of the first \<^verbatim>\<open>False\<close>, and of the first \<^verbatim>\<open>True\<close>, or 0.
\<close>

definition np_equal :: "elem list \<Rightarrow> ndarray \<Rightarrow> exn + bool list" where
  "np_equal xs a =
     (case np_shape a of
        [n] \<Rightarrow>
          (if length xs = length (np_data a) then Inr (map2 elem_eq xs (np_data a))
           else if length xs = 1 then Inr (map (elem_eq (hd xs)) (np_data a))
           else if length (np_data a) = 1 then Inr (map (\<lambda>x. elem_eq x (hd (np_data a))) xs)
           else Inl NotModelled)
      | _ \<Rightarrow> Inl NotModelled)"

fun first_index :: "('a \<Rightarrow> bool) \<Rightarrow> 'a list \<Rightarrow> nat option" where
  "first_index P [] = None"
| "first_index P (x # xs) =
     (if P x then Some 0 else map_option Suc (first_index P xs))"

definition np_argmin :: "bool list \<Rightarrow> exn + nat" where
  "np_argmin bs =
     (if bs = [] then Inl ValueError
      else Inr (case first_index (\<lambda>b. \<not> b) bs of None \<Rightarrow> 0 | Some i \<Rightarrow> i))"

definition np_argmax :: "bool list \<Rightarrow> exn + nat" where
  "np_argmax bs =
     (if bs = [] then Inl ValueError
      else Inr (case first_index (\<lambda>b. b) bs of None \<Rightarrow> 0 | Some i \<Rightarrow> i))"

text \<open>\<^verbatim>\<open>np.int32(input_1[1:])\<close>: the target without its first entry.\<close>

definition target_tail :: "ndarray \<Rightarrow> exn + ndarray" where
  "target_tail input_1 =
     (case np_slice input_1 (Slice (EInt 1) ENone ENone) of
        Inl e \<Rightarrow> Inl e
      | Inr t \<Rightarrow> astype_int32 t)"

text \<open>
  The source, when the target is an array, the reshaped value is a tensor and the
  ordering is changed:
  \<^verbatim>\<open>
    input_0 = ensure_tf_type(layers[node.input[0]], name="%s_const" % keras_name)
    if input_1[0] is None and input_1[1] == -1:
        logger.warning('!!! IMPORTANT INFORMATION !!!')
        logger.warning('The target shape if [None, -1] that means flatten.')
        logger.warning('But the target ordering is NHWC, so we cant simply perform flatten')
        logger.warning('The layer will be converted as lambda with tf.transpose')
        logger.warning('---')
        def target_layer(x):
            import tensorflow as tf
            x = tf.transpose(x, [0, 3, 1, 2])
            return x
        lambda_layer = keras.layers.Lambda(target_layer, name="%s_CHW" % keras_name)
        layers[node_name] = lambda_layer(input_0)
        lambda_func[keras_name] = target_layer
    else:
        layers[node_name] = input_0
    reshape = keras.layers.Reshape(np.int32(input_1[1:]), name=keras_name)
    layers[node_name] = reshape(layers[node_name])
  \<close>
\<close>

definition is_flatten_target :: "ndarray \<Rightarrow> exn + bool" where
  "is_flatten_target input_1 =
     (case np_item input_1 0 of
        Inl e \<Rightarrow> Inl e
      | Inr e0 \<Rightarrow>
         (if e0 = ENone then
            (case np_item input_1 1 of
               Inl e \<Rightarrow> Inl e
             | Inr e1 \<Rightarrow> Inr (elem_eq e1 (EInt (- 1))))
          else Inr False))"

definition reshape_nhwc :: "string \<Rightarrow> string \<Rightarrow> tensor \<Rightarrow> ndarray \<Rightarrow> conv_state \<Rightarrow> outcome" where
  "reshape_nhwc node_name keras_name input_0 input_1 st =
     (case is_flatten_target input_1 of
        Inl e \<Rightarrow> (Some e, st)
      | Inr flat \<Rightarrow>
         (let inner = (if flat then keras_Lambda_CHW (keras_name @ ''_CHW'') input_0
                       else input_0);
              st1 = (if flat then
                       (set_layer node_name (Symbolic inner)
                          (warn ''---''
                          (warn ''The layer will be converted as lambda with tf.transpose''
                          (warn ''But the target ordering is NHWC, so we cant simply perform flatten''
                          (warn ''The target shape if [None, -1] that means flatten.''
                          (warn ''!!! IMPORTANT INFORMATION !!!'' st))))))
                         \<lparr>lambda_func := (lambda_func st)(keras_name \<mapsto> TransposeTo_0312)\<rparr>
                     else set_layer node_name (Symbolic inner) st)
          in case target_tail input_1 of
               Inl e \<Rightarrow> (Some e, st1)
             | Inr target \<Rightarrow>
                 (None, set_layer node_name
                          (Symbolic (keras_Reshape target keras_name (Symbolic inner))) st1)))"

text \<open>
  The source, when the target is an array, the reshaped value is a tensor and the
  ordering is kept:
  \<^verbatim>\<open>
    input_0 = ensure_tf_type(layers[node.input[0]], name="%s_const" % keras_name)
    input_0_shape = input_0.shape
    first_mismatch = np.argmin(np.array(input_0_shape[:len(input_1)]) == input_1)
    if (input_1 == None).any() and (np.array(input_0_shape) == None).any() \
            and len(input_1) < len(input_0_shape) and input_1[first_mismatch] == -1:
        end_match_arr = np.array(input_0_shape[-len(input_1):]) == input_1
        end_idx_match = np.argmax((np.array(input_0_shape[-len(input_1):]) == input_1))
        end_idx_match = end_idx_match + len(input_0_shape) - len(input_1) \
            if end_idx_match > first_mismatch and end_match_arr[end_idx_match] \
            else len(input_0_shape) + 1
        tf_shape = tf.shape(input_0)
        layers[node_name] = tf.reshape(input_0,
            [*tf_shape[:first_mismatch], -1, *tf_shape[end_idx_match:]])
    else:
        if len(np.int32(input_1[1:])) == 1 and np.int32(input_1[1:])[0] == -1:
            flatten = keras.layers.Flatten(name=keras_name)
            layers[node_name] = flatten(input_0)
        else:
            if input_0.shape[0] != input_1[0]:
                layers[node_name] = tf.reshape(input_0, input_1, name=keras_name)
            else:
                reshape = keras.layers.Reshape(np.int32(input_1[1:]), name=keras_name)
                layers[node_name] = reshape(input_0)
  \<close>
  \<open>reshape_branch\<close> names the branch the routine takes.
\<close>

datatype reshape_branch = ReshapeEnd | FlattenBranch | FullReshape | KerasReshape

definition is_reshape_end :: "elem list \<Rightarrow> ndarray \<Rightarrow> nat \<Rightarrow> nat \<Rightarrow> exn + bool" where
  "is_reshape_end input_0_shape input_1 n first_mismatch =
     (if list_ex (\<lambda>e. e = ENone) (np_data input_1)
         \<and> list_ex (\<lambda>e. e = ENone) input_0_shape
         \<and> n < length input_0_shape
      then (case np_item input_1 (int first_mismatch) of
              Inl e \<Rightarrow> Inl e
            | Inr x \<Rightarrow> Inr (elem_eq x (EInt (- 1))))
      else Inr False)"

definition reshape_end_target :: "elem list \<Rightarrow> ndarray \<Rightarrow> nat \<Rightarrow> nat \<Rightarrow> exn + dim_spec list" where
  "reshape_end_target input_0_shape input_1 n first_mismatch =
     (let r = length input_0_shape;
          trailing = (if n = 0 then input_0_shape else drop (r - n) input_0_shape) in
      case np_equal trailing input_1 of
        Inl e \<Rightarrow> Inl e
      | Inr end_match_arr \<Rightarrow>
         (case np_argmax end_match_arr of
            Inl e \<Rightarrow> Inl e
          | Inr end_idx_match \<Rightarrow>
             (let end_idx = (if first_mismatch < end_idx_match \<and> end_match_arr ! end_idx_match
                             then end_idx_match + r - n else r + 1)
              in Inr (map DimOfShape [0..<min first_mismatch r] @ [DimLit (- 1)]
                        @ map DimOfShape [end_idx..<r]))))"

definition is_flatten_tail :: "ndarray \<Rightarrow> exn + bool" where
  "is_flatten_tail target =
     (case np_len target of
        Inl e \<Rightarrow> Inl e
      | Inr k \<Rightarrow>
         (if k = 1 then
            (case np_item target 0 of
               Inl e \<Rightarrow> Inl e
             | Inr x \<Rightarrow> Inr (elem_eq x (EInt (- 1))))
          else Inr False))"

definition reshape_plain :: "string \<Rightarrow> tensor \<Rightarrow> ndarray \<Rightarrow> exn + reshape_branch \<times> tensor" where
  "reshape_plain keras_name input_0 input_1 =
     (let input_0_shape = map shape_entry (tshape input_0) in
      case np_len input_1 of
        Inl e \<Rightarrow> Inl e
      | Inr n \<Rightarrow>
     (case np_equal (take n input_0_shape) input_1 of
        Inl e \<Rightarrow> Inl e
      | Inr eqs \<Rightarrow>
     (case np_argmin eqs of
        Inl e \<Rightarrow> Inl e
      | Inr first_mismatch \<Rightarrow>
     (case is_reshape_end input_0_shape input_1 n first_mismatch of
        Inl e \<Rightarrow> Inl e
      | Inr True \<Rightarrow>
         (case reshape_end_target input_0_shape input_1 n first_mismatch of
            Inl e \<Rightarrow> Inl e
          | Inr target \<Rightarrow> Inr (ReshapeEnd, tf_reshape_dyn input_0 target))
      | Inr False \<Rightarrow>
         (case target_tail input_1 of
            Inl e \<Rightarrow> Inl e
          | Inr target \<Rightarrow>
         (case is_flatten_tail target of
            Inl e \<Rightarrow> Inl e
          | Inr True \<Rightarrow>
              Inr (FlattenBranch, keras_Flatten (Some keras_name) (Symbolic input_0))
          | Inr False \<Rightarrow>
             (case tshape input_0 of
                [] \<Rightarrow> Inl IndexError
              | d0 # ds \<Rightarrow>
                 (case np_item input_1 0 of
                    Inl e \<Rightarrow> Inl e
                  | Inr e0 \<Rightarrow>
                     (if \<not> elem_eq (shape_entry d0) e0
                      then Inr (FullReshape, tf_reshape input_0 input_1 keras_name)
                      else Inr (KerasReshape,
                                keras_Reshape target keras_name (Symbolic input_0)))))))))))"

text \<open>
  The routine:
  \<^verbatim>\<open>
    input_0 = layers[node.input[0]]
    input_1 = layers[node.input[1]]
    if is_numpy(input_1):
        if is_numpy(input_0):
            layers[node_name] = np.reshape(input_0, np.int32(input_1))
        else:
            if params['change_ordering']:
                ...
            else:
                ...
    else:
        raise AttributeError('Can\'t reshape dynamic size.')
  \<close>
  The two tests \<^verbatim>\<open>is_numpy\<close> are the case distinctions on the two values.
\<close>

definition convert_reshape :: "node \<Rightarrow> string \<Rightarrow> string \<Rightarrow> conv_state \<Rightarrow> outcome" where
  "convert_reshape nd node_name keras_name st =
     (case input_val nd (layers st) 0 of
        Inl e \<Rightarrow> (Some e, st)
      | Inr v0 \<Rightarrow>
     (case input_val nd (layers st) 1 of
        Inl e \<Rightarrow> (Some e, st)
      | Inr v1 \<Rightarrow>
         (case v1 of
            Constant input_1 \<Rightarrow>
              (case v0 of
                 Constant a \<Rightarrow>
                   (case astype_int32 input_1 of
                      Inl e \<Rightarrow> (Some e, st)
                    | Inr shp \<Rightarrow> store node_name (const (np_reshape a shp)) st)
               | Symbolic t \<Rightarrow>
                   (let input_0 = ensure_tf_type v0 (keras_name @ ''_const'') in
                    if change_ordering (cs_params st)
                    then reshape_nhwc node_name keras_name input_0 input_1 st
                    else (case reshape_plain keras_name input_0 input_1 of
                            Inl e \<Rightarrow> (Some e, st)
                          | Inr (b, t') \<Rightarrow> (None, set_layer node_name (Symbolic t') st))))
          | Symbolic t1 \<Rightarrow> (Some (AttributeError ''Can't reshape dynamic size.''), st))))"

section \<open>Unsqueeze\<close>

text \<open>
  \<^verbatim>\<open>np.expand_dims(a, axis)\<close> and \<^verbatim>\<open>tf.expand_dims(x, axis)\<close>: a new axis of size 1 at
  the position \<open>axis\<close>, which may count from the end of the new shape.
\<close>

definition np_expand_dims :: "ndarray \<Rightarrow> elem \<Rightarrow> exn + ndarray" where
  "np_expand_dims a ax =
     (case elem_axis ax of
        Inl e \<Rightarrow> Inl e
      | Inr i \<Rightarrow>
         (let k = norm_axis i (Suc (np_ndim a)) in
          if 0 \<le> k \<and> k \<le> int (np_ndim a)
          then Inr (NdArray (np_dtype a)
                      (take (nat k) (np_shape a) @ [1] @ drop (nat k) (np_shape a)) (np_data a))
          else Inl ValueError))"

definition tf_expand_dims :: "val \<Rightarrow> elem \<Rightarrow> tensor" where
  "tf_expand_dims x ax =
     Tensor (OpExpandDims x ax)
       (case ax of
          EInt i \<Rightarrow> (let k = nat (norm_axis i (Suc (length (val_shape x))))
                     in take k (val_shape x) @ [Some 1] @ drop k (val_shape x))
        | _ \<Rightarrow> val_shape x)
       (val_is_keras x)"

text \<open>
  \<^verbatim>\<open>params['axes']\<close> as the routine uses it: iterated, measured with \<^verbatim>\<open>len\<close> and
  subscripted. The iteration over a tensor is not modelled.
\<close>

definition axes_list :: "axes_attr \<Rightarrow> exn + elem list" where
  "axes_list ax = (case ax of
      AxesList xs \<Rightarrow> Inr (map EInt xs)
    | AxesValue (Constant a) \<Rightarrow> np_list a
    | AxesValue (Symbolic t) \<Rightarrow> Inl NotModelled)"

definition axes_len :: "axes_attr \<Rightarrow> exn + nat" where
  "axes_len ax = (case ax of
      AxesList xs \<Rightarrow> Inr (length xs)
    | AxesValue (Constant a) \<Rightarrow> np_len a
    | AxesValue (Symbolic t) \<Rightarrow> Inl NotModelled)"

text \<open>
  The loop
  \<^verbatim>\<open>
    for axis in params['axes']:
        layers[node_name] = np.expand_dims(layers[node_name], axis)
  \<close>
\<close>

fun expand_loop :: "string \<Rightarrow> elem list \<Rightarrow> conv_state \<Rightarrow> outcome" where
  "expand_loop node_name [] st = (None, st)"
| "expand_loop node_name (ax # rest) st =
     (case layers_get (layers st) node_name of
        Inl e \<Rightarrow> (Some e, st)
      | Inr (Symbolic t) \<Rightarrow> (Some NotModelled, st)
      | Inr (Constant a) \<Rightarrow>
         (case np_expand_dims a ax of
            Inl e \<Rightarrow> (Some e, st)
          | Inr b \<Rightarrow> expand_loop node_name rest (set_layer node_name (Constant b) st)))"

text \<open>
  The source:
  \<^verbatim>\<open>
    if len(node.input) != 1:
        if len(node.input) == 2:
            params['axes'] = layers[node.input[1]]
        else:
            raise AttributeError('Number of inputs is not equal 1 for unsqueeze layer')
    if is_numpy(layers[node.input[0]]):
        layers[node_name] = layers[node.input[0]]
        for axis in params['axes']:
            layers[node_name] = np.expand_dims(layers[node_name], axis)
    else:
        if len(params['axes']) != 1:
            raise AttributeError('Number of axes is not equal 1. Cannot unsqueeze')
        layers[node_name] = tf.expand_dims(layers[node.input[0]], params['axes'][0])
  \<close>
\<close>

definition unsqueeze_axes :: "node \<Rightarrow> conv_state \<Rightarrow> exn + conv_state" where
  "unsqueeze_axes nd st =
     (if length (input nd) \<noteq> 1 then
        (if length (input nd) = 2 then
           (case input_val nd (layers st) 1 of
              Inl e \<Rightarrow> Inl e
            | Inr v \<Rightarrow> Inr (st\<lparr>cs_params := (cs_params st)\<lparr>axes := Some (AxesValue v)\<rparr>\<rparr>))
         else Inl (AttributeError ''Number of inputs is not equal 1 for unsqueeze layer''))
      else Inr st)"

definition convert_unsqueeze :: "node \<Rightarrow> string \<Rightarrow> string \<Rightarrow> conv_state \<Rightarrow> outcome" where
  "convert_unsqueeze nd node_name keras_name st =
     (case unsqueeze_axes nd st of
        Inl e \<Rightarrow> (Some e, st)
      | Inr st1 \<Rightarrow>
     (case input_val nd (layers st1) 0 of
        Inl e \<Rightarrow> (Some e, st1)
      | Inr v0 \<Rightarrow>
         (if is_numpy v0 then
            (let st2 = set_layer node_name v0 st1 in
             case axes (cs_params st2) of
               None \<Rightarrow> (Some KeyError, st2)
             | Some ax \<Rightarrow>
                 (case axes_list ax of
                    Inl e \<Rightarrow> (Some e, st2)
                  | Inr xs \<Rightarrow> expand_loop node_name xs st2))
          else
            (case axes (cs_params st1) of
               None \<Rightarrow> (Some KeyError, st1)
             | Some ax \<Rightarrow>
                 (case axes_len ax of
                    Inl e \<Rightarrow> (Some e, st1)
                  | Inr k \<Rightarrow>
                     (if k \<noteq> 1 then
                        (Some (AttributeError
                           ''Number of axes is not equal 1. Cannot unsqueeze''), st1)
                      else
                        (case axes_first ax of
                           Inl e \<Rightarrow> (Some e, st1)
                         | Inr a0 \<Rightarrow>
                             (None, set_layer node_name
                                      (Symbolic (tf_expand_dims v0 a0)) st1))))))))"

section \<open>Flatten\<close>

text \<open>
  The source:
  \<^verbatim>\<open>
    if len(node.input) != 1:
        raise AttributeError('Number of inputs is not equal 1 for flatten layer')
    input_0 = ensure_tf_type(layers[node.input[0]], name="%s_const" % keras_name)
    permute = keras.layers.Permute((3, 1, 2))
    tensor_chw = permute(input_0)
    flatten = keras.layers.Flatten(name=keras_name)
    layers[node_name] = flatten(tensor_chw)
  \<close>
\<close>

definition convert_flatten :: "node \<Rightarrow> string \<Rightarrow> string \<Rightarrow> conv_state \<Rightarrow> outcome" where
  "convert_flatten nd node_name keras_name st =
     (if length (input nd) \<noteq> 1
      then (Some (AttributeError ''Number of inputs is not equal 1 for flatten layer''), st)
      else case input_val nd (layers st) 0 of
        Inl e \<Rightarrow> (Some e, st)
      | Inr v \<Rightarrow>
         (let input_0 = ensure_tf_type v (keras_name @ ''_const'') in
          case keras_Permute [3, 1, 2] None (Symbolic input_0) of
            Inl e \<Rightarrow> (Some e, st)
          | Inr tensor_chw \<Rightarrow>
              (None, set_layer node_name
                       (Symbolic (keras_Flatten (Some keras_name) (Symbolic tensor_chw))) st)))"

section \<open>Slice\<close>

text \<open>
  Modelled from the spec: \<^verbatim>\<open>ensure_numpy_type\<close> of \<^verbatim>\<open>onnx2kerastl/utils.py\<close>, which is
  not among the sources. The spec says that a slice parameter taken from a graph input
  is resolved eagerly to a concrete value.
\<close>

definition ensure_numpy_type :: "val \<Rightarrow> exn + ndarray" where
  "ensure_numpy_type v = (case v of Constant a \<Rightarrow> Inr a | Symbolic t \<Rightarrow> tensor_numpy t)"

text \<open>
  \<^verbatim>\<open>SlicingOpLambda(tf.__operators__.getitem)(x, slice_spec=spec)\<close>: an axis of known
  size keeps the number of positions its slice selects.
\<close>

definition sliced_dim :: "int option \<Rightarrow> slice \<Rightarrow> int option" where
  "sliced_dim d sl = (case d of
      None \<Rightarrow> None
    | Some k \<Rightarrow> (case py_slice (nat k) sl of Inl e \<Rightarrow> None | Inr ix \<Rightarrow> Some (int (length ix))))"

definition tf_getitem :: "tensor \<Rightarrow> slice list \<Rightarrow> tensor" where
  "tf_getitem x spec = Tensor (OpGetItem x spec) (map2 sliced_dim (tshape x) spec) (is_keras x)"

text \<open>Python's \<^verbatim>\<open>xs[i]\<close> on a list, for an index that is not negative.\<close>

definition list_get :: "'a list \<Rightarrow> nat \<Rightarrow> exn + 'a" where
  "list_get xs i = (if i < length xs then Inr (xs ! i) else Inl IndexError)"

definition input_list :: "node \<Rightarrow> (string \<rightharpoonup> val) \<Rightarrow> nat \<Rightarrow> exn + elem list" where
  "input_list nd ls i =
     (case input_val nd ls i of
        Inl e \<Rightarrow> Inl e
      | Inr v \<Rightarrow> (case ensure_numpy_type v of Inl e \<Rightarrow> Inl e | Inr a \<Rightarrow> np_list a))"

text \<open>
  The parameters of the slice: \<open>(starts, ends, axes, steps)\<close>.
  \<^verbatim>\<open>
    if 'axes' in params:
        axes = list(params["axes"])
        ends = list(params["ends"])
        starts = list(params["starts"])
        steps = list(params.get("steps", [None] * len(axes)))
    else:
        starts = list(ensure_numpy_type(layers[node.input[1]]))
        ends = list(ensure_numpy_type(layers[node.input[2]]))
        axes = list(ensure_numpy_type(layers[node.input[3]]))
        try:
            steps = list(ensure_numpy_type(layers[node.input[4]]))
        except IndexError:
            steps = list(params.get("steps", [None] * len(axes)))
  \<close>
\<close>

definition default_steps :: "params \<Rightarrow> elem list \<Rightarrow> elem list" where
  "default_steps p axs = (case steps p of
      None \<Rightarrow> replicate (length axs) ENone
    | Some xs \<Rightarrow> map EInt xs)"

definition slice_params ::
  "node \<Rightarrow> conv_state \<Rightarrow> exn + elem list \<times> elem list \<times> elem list \<times> elem list" where
  "slice_params nd st =
     (case axes (cs_params st) of
        Some ax \<Rightarrow>
          (case axes_list ax of
             Inl e \<Rightarrow> Inl e
           | Inr axs \<Rightarrow>
          (case ends (cs_params st) of
             None \<Rightarrow> Inl KeyError
           | Some es \<Rightarrow>
          (case starts (cs_params st) of
             None \<Rightarrow> Inl KeyError
           | Some ss \<Rightarrow>
               Inr (map EInt ss, map EInt es, axs, default_steps (cs_params st) axs))))
      | None \<Rightarrow>
          (case input_list nd (layers st) 1 of
             Inl e \<Rightarrow> Inl e
           | Inr ss \<Rightarrow>
          (case input_list nd (layers st) 2 of
             Inl e \<Rightarrow> Inl e
           | Inr es \<Rightarrow>
          (case input_list nd (layers st) 3 of
             Inl e \<Rightarrow> Inl e
           | Inr axs \<Rightarrow>
          (case input_list nd (layers st) 4 of
             Inl IndexError \<Rightarrow> Inr (ss, es, axs, default_steps (cs_params st) axs)
           | Inl e \<Rightarrow> Inl e
           | Inr sts \<Rightarrow> Inr (ss, es, axs, sts))))))"

text \<open>\<^verbatim>\<open>axis if axis >= 0 else input_shape_len + axis\<close>\<close>

definition axis_positive :: "nat \<Rightarrow> elem \<Rightarrow> exn + elem" where
  "axis_positive n a = (case a of
      ENone \<Rightarrow> Inl TypeError
    | EInt i \<Rightarrow> Inr (EInt (if 0 \<le> i then i else int n + i))
    | EFloat r \<Rightarrow> Inr (EFloat (if 0 \<le> r then r else real n + r)))"

text \<open>
  The loop that builds the slice spec, one entry per axis of the operand:
  \<^verbatim>\<open>
    for axis in range(input_shape_len):
        if axis in axes_positives:
            axis_index = axes_positives.index(axis)
            start = starts[axis_index]
            end = ends[axis_index] if ends[axis_index] < 2147483647 else None
            step = steps[axis_index]
            slice_spec_param.append({'start': start, 'step': step, 'stop': end})
        else:
            slice_spec_param.append({'start': None, 'step': None, 'stop': None})
  \<close>
  Beside the spec the loop leaves the variables \<^verbatim>\<open>start\<close>, \<^verbatim>\<open>end\<close> and \<^verbatim>\<open>step\<close> of
  the last axis it found: the second component, \<open>None\<close> while they are unbound.
\<close>

definition slice_entry :: "elem list \<Rightarrow> elem list \<Rightarrow> elem list \<Rightarrow> nat \<Rightarrow> exn + slice" where
  "slice_entry sts es sps axis_index =
     (case list_get sts axis_index of
        Inl e \<Rightarrow> Inl e
      | Inr start \<Rightarrow>
     (case list_get es axis_index of
        Inl e \<Rightarrow> Inl e
      | Inr end_value \<Rightarrow>
     (case elem_less end_value (EInt 2147483647) of
        Inl e \<Rightarrow> Inl e
      | Inr below \<Rightarrow>
     (case list_get sps axis_index of
        Inl e \<Rightarrow> Inl e
      | Inr step \<Rightarrow> Inr (Slice start step (if below then end_value else ENone))))))"

fun slice_spec_loop ::
  "nat list \<Rightarrow> elem list \<Rightarrow> elem list \<Rightarrow> elem list \<Rightarrow> elem list \<Rightarrow>
   slice list \<times> slice option \<Rightarrow> exn + slice list \<times> slice option" where
  "slice_spec_loop [] axes_positives sts es sps acc = Inr acc"
| "slice_spec_loop (k # rest) axes_positives sts es sps (spec, last_found) =
     (case first_index (elem_eq (EInt (int k))) axes_positives of
        None \<Rightarrow>
          slice_spec_loop rest axes_positives sts es sps
            (spec @ [Slice ENone ENone ENone], last_found)
      | Some axis_index \<Rightarrow>
          (case slice_entry sts es sps axis_index of
             Inl e \<Rightarrow> Inl e
           | Inr sl \<Rightarrow>
               slice_spec_loop rest axes_positives sts es sps (spec @ [sl], Some sl)))"

definition slice_spec_param ::
  "nat \<Rightarrow> elem list \<times> elem list \<times> elem list \<times> elem list \<Rightarrow> exn + slice list \<times> slice option" where
  "slice_spec_param input_shape_len ps =
     (case ps of (sts, es, axs, sps) \<Rightarrow>
        (case map_res (axis_positive input_shape_len) axs of
           Inl e \<Rightarrow> Inl e
         | Inr axes_positives \<Rightarrow>
             slice_spec_loop [0..<input_shape_len] axes_positives sts es sps ([], None)))"

text \<open>
  The rest of the routine:
  \<^verbatim>\<open>
    if is_numpy(layers[node.input[0]]) \
            and np.array([_shape is None for _shape in layers[node.input[0]]]).any() \
            and len(layers[node.input[0]].shape) == 1:
        sliced = layers[node.input[0]][start:end:step]
    else:
        input_0 = ensure_tf_type(layers[node.input[0]], name="%s_const" % keras_name)
        slicing_layer = SlicingOpLambda(tf.__operators__.getitem)
        sliced = slicing_layer(input_0, slice_spec=slice_spec_param)
        if is_numpy(layers[node.input[0]]):
            sliced = sliced.numpy()
    layers[node_name] = sliced
  \<close>
  The iteration over an array of no dimension raises \<^verbatim>\<open>TypeError\<close>; the entries of an
  array of two or more dimensions are arrays, none of which is \<^verbatim>\<open>None\<close>.
\<close>

definition holds_none :: "ndarray \<Rightarrow> exn + bool" where
  "holds_none a = (case np_shape a of
      [] \<Rightarrow> Inl TypeError
    | [n] \<Rightarrow> Inr (list_ex (\<lambda>e. e = ENone) (np_data a))
    | _ \<Rightarrow> Inr False)"

definition slice_value ::
  "string \<Rightarrow> val \<Rightarrow> slice list \<times> slice option \<Rightarrow> exn + val" where
  "slice_value keras_name v0 r =
     (case r of (spec, last_found) \<Rightarrow>
       (case v0 of
          Constant a \<Rightarrow>
            (case holds_none a of
               Inl e \<Rightarrow> Inl e
             | Inr shape_array \<Rightarrow>
                 (if shape_array \<and> np_ndim a = 1 then
                    (case last_found of
                       None \<Rightarrow> Inl UnboundLocalError
                     | Some sl \<Rightarrow> const (np_slice a sl))
                  else
                    const (tensor_numpy
                             (tf_getitem (ensure_tf_type v0 (keras_name @ ''_const'')) spec))))
        | Symbolic t \<Rightarrow>
            Inr (Symbolic (tf_getitem (ensure_tf_type v0 (keras_name @ ''_const'')) spec))))"

definition convert_slice :: "node \<Rightarrow> string \<Rightarrow> string \<Rightarrow> conv_state \<Rightarrow> outcome" where
  "convert_slice nd node_name keras_name st =
     (if change_ordering (cs_params st)
      then (Some (NotImplementedError ''change_ordering for Slice is not implemented''), st)
      else case slice_params nd st of
        Inl e \<Rightarrow> (Some e, st)
      | Inr ps \<Rightarrow>
     (case input_val nd (layers st) 0 of
        Inl e \<Rightarrow> (Some e, st)
      | Inr v0 \<Rightarrow>
     (case slice_spec_param (length (val_shape v0)) ps of
        Inl e \<Rightarrow> (Some e, st)
      | Inr r \<Rightarrow> store node_name (slice_value keras_name v0 r) st)))"

section \<open>Concat\<close>

text \<open>
  \<^verbatim>\<open>np.concatenate(arrays, axis=axis)\<close>: the arrays have the same shape but for the axis
  they are joined on (\<^verbatim>\<open>ValueError\<close> otherwise, also for no array and for arrays of no
  dimension); the element type of the result is the widest of the operands'.
\<close>

definition dtype_rank :: "dtype \<Rightarrow> nat" where
  "dtype_rank d = (case d of DInt32 \<Rightarrow> 0 | DInt64 \<Rightarrow> 1 | DFloat \<Rightarrow> 2 | DObject \<Rightarrow> 3)"

definition promote :: "dtype \<Rightarrow> dtype \<Rightarrow> dtype" where
  "promote a b = (if dtype_rank a < dtype_rank b then b else a)"

definition np_concatenate :: "ndarray list \<Rightarrow> int \<Rightarrow> exn + ndarray" where
  "np_concatenate arrays ax =
     (case arrays of
        [] \<Rightarrow> Inl ValueError
      | a # rest \<Rightarrow>
         (let k = norm_axis ax (np_ndim a) in
          if k < 0 \<or> int (np_ndim a) \<le> k then Inl ValueError
          else if \<not> list_all (\<lambda>b. (np_shape b)[nat k := 0] = (np_shape a)[nat k := 0]) rest
          then Inl ValueError
          else Inr (NdArray (foldl promote (np_dtype a) (map np_dtype rest))
                      ((np_shape a)[nat k := sum_list (map (\<lambda>b. np_shape b ! nat k) arrays)])
                      (concat (map (\<lambda>i. concat (map (\<lambda>b. chunk (prod_list (drop (nat k) (np_shape b)))
                                                                 (np_data b) i) arrays))
                                 [0..<prod_list (take (nat k) (np_shape a))])))))"

text \<open>
  \<^verbatim>\<open>tf.concat(values, axis=axis, name=name)\<close> and
  \<^verbatim>\<open>keras.layers.concatenate(inputs=values, axis=axis, name=name)\<close>: the size on the axis
  is the sum of the operands' sizes when they are all known.
\<close>

definition concat_shape :: "val list \<Rightarrow> int \<Rightarrow> int option list" where
  "concat_shape vs ax = (case vs of
      [] \<Rightarrow> []
    | v # rest \<Rightarrow>
        (let k = norm_axis ax (length (val_shape v));
             ds = map (\<lambda>w. dim_at (val_shape w) k) vs
         in (val_shape v)[nat k := (if list_all (\<lambda>d. d \<noteq> None) ds
                                    then Some (sum_list (map the ds)) else None)]))"

definition tf_concat :: "val list \<Rightarrow> int \<Rightarrow> string \<Rightarrow> tensor" where
  "tf_concat vs ax name =
     Tensor (OpConcat vs ax name) (concat_shape vs ax) (list_ex val_is_keras vs)"

definition keras_concatenate :: "val list \<Rightarrow> int \<Rightarrow> string \<Rightarrow> tensor" where
  "keras_concatenate vs ax name =
     Tensor (OpKerasConcatenate vs ax name) (concat_shape vs ax) (list_ex val_is_keras vs)"

text \<open>
  The source:
  \<^verbatim>\<open>
    layer_input = [layers[node.input[i]] for i in range(len(node.input))]
    if all([is_numpy(layers[node.input[i]]) for i in range(len(node.input))]):
        layers[node_name] = np.concatenate(layer_input, axis=params['axis'])
    else:
        if len(layer_input) > 1:
            if not np.array([tf.is_tensor(layer_input[i]) and K.is_keras_tensor(layer_input[i])
                             for i in range(len(layer_input))]).all():
                layers[node_name] = tf.concat(layer_input, axis=params['axis'], name=keras_name)
            else:
                layers[node_name] = keras.layers.concatenate(inputs=layer_input,
                                                             axis=params['axis'],
                                                             name=keras_name)
        else:
            layers[node_name] = layer_input[0]
  \<close>
\<close>

definition the_array :: "val \<Rightarrow> exn + ndarray" where
  "the_array v = (case v of Constant a \<Rightarrow> Inr a | Symbolic t \<Rightarrow> Inl NotModelled)"

definition concat_value :: "string \<Rightarrow> val list \<Rightarrow> conv_state \<Rightarrow> exn + val" where
  "concat_value keras_name layer_input st =
     (if list_all is_numpy layer_input then
        (case axis (cs_params st) of
           None \<Rightarrow> Inl KeyError
         | Some ax \<Rightarrow>
             (case map_res the_array layer_input of
                Inl e \<Rightarrow> Inl e
              | Inr arrays \<Rightarrow> const (np_concatenate arrays ax)))
      else if 1 < length layer_input then
        (case axis (cs_params st) of
           None \<Rightarrow> Inl KeyError
         | Some ax \<Rightarrow>
             (if \<not> list_all val_is_keras layer_input
              then Inr (Symbolic (tf_concat layer_input ax keras_name))
              else Inr (Symbolic (keras_concatenate layer_input ax keras_name))))
      else list_get layer_input 0)"

definition convert_concat :: "node \<Rightarrow> string \<Rightarrow> string \<Rightarrow> conv_state \<Rightarrow> outcome" where
  "convert_concat nd node_name keras_name st =
     (case map_res (layers_get (layers st)) (input nd) of
        Inl e \<Rightarrow> (Some e, st)
      | Inr layer_input \<Rightarrow> store node_name (concat_value keras_name layer_input st) st)"

section \<open>Expand and tile\<close>

text \<open>
  \<^verbatim>\<open>x * tf.ones(shape, dtype=x.dtype)\<close>: the product has the broadcast of the two shapes.
\<close>

definition broadcast_dim :: "int option \<Rightarrow> int option \<Rightarrow> int option" where
  "broadcast_dim a b = (if a = Some 1 then b else if b = Some 1 \<or> b = None then a else b)"

definition broadcast_shape :: "int option list \<Rightarrow> int option list \<Rightarrow> int option list" where
  "broadcast_shape a b =
     (let n = max (length a) (length b)
      in map2 broadcast_dim (replicate (n - length a) (Some 1) @ a)
                            (replicate (n - length b) (Some 1) @ b))"

definition tf_mul_ones :: "tensor \<Rightarrow> ndarray \<Rightarrow> tensor" where
  "tf_mul_ones x shp =
     Tensor (OpMulOnes x shp) (broadcast_shape (tshape x) (map elem_dim (np_data shp)))
       (is_keras x)"

text \<open>
  The source of the expand lowering; as in the squeeze lowering, the \<^verbatim>\<open>assert\<close> is given
  an exception object and never fails:
  \<^verbatim>\<open>
    if len(node.input) != 2:
        assert AttributeError('More than 2 input for expand layer.')
    input_0 = ensure_tf_type(layers[node.input[0]], name="%s_const" % keras_name)
    input_1 = ensure_numpy_type(layers[node.input[1]]).astype(np.int32)
    layers[node_name] = input_0 * tf.ones(input_1, dtype=input_0.dtype)
  \<close>
\<close>

definition convert_expand :: "node \<Rightarrow> string \<Rightarrow> string \<Rightarrow> conv_state \<Rightarrow> outcome" where
  "convert_expand nd node_name keras_name st =
     (case (if length (input nd) \<noteq> 2 then py_assert True else None) of
        Some e \<Rightarrow> (Some e, st)
      | None \<Rightarrow>
     (case input_val nd (layers st) 0 of
        Inl e \<Rightarrow> (Some e, st)
      | Inr v0 \<Rightarrow>
     (case input_val nd (layers st) 1 of
        Inl e \<Rightarrow> (Some e, st)
      | Inr v1 \<Rightarrow>
     (case ensure_numpy_type v1 of
        Inl e \<Rightarrow> (Some e, st)
      | Inr a \<Rightarrow>
     (case astype_int32 a of
        Inl e \<Rightarrow> (Some e, st)
      | Inr input_1 \<Rightarrow>
          (None, set_layer node_name
                   (Symbolic (tf_mul_ones (ensure_tf_type v0 (keras_name @ ''_const'')) input_1))
                   st))))))"

text \<open>
  \<^verbatim>\<open>tf.tile(x, multiples)\<close>, and the tile lowering:
  \<^verbatim>\<open>
    layers[node_name] = tf.tile(layers[node.input[0]], layers[node.input[1]])
  \<close>
\<close>

definition tile_dim :: "int option \<Rightarrow> elem \<Rightarrow> int option" where
  "tile_dim d m = (case (d, m) of (Some k, EInt i) \<Rightarrow> Some (k * i) | _ \<Rightarrow> None)"

definition tf_tile :: "val \<Rightarrow> val \<Rightarrow> tensor" where
  "tf_tile x multiples =
     Tensor (OpTile x multiples)
       (case multiples of
          Constant m \<Rightarrow>
            (if length (np_data m) = length (val_shape x)
             then map2 tile_dim (val_shape x) (np_data m)
             else map (\<lambda>d. None) (val_shape x))
        | Symbolic t \<Rightarrow> map (\<lambda>d. None) (val_shape x))
       (val_is_keras x \<or> val_is_keras multiples)"

definition convert_tile :: "node \<Rightarrow> string \<Rightarrow> string \<Rightarrow> conv_state \<Rightarrow> outcome" where
  "convert_tile nd node_name keras_name st =
     (case input_val nd (layers st) 0 of
        Inl e \<Rightarrow> (Some e, st)
      | Inr v0 \<Rightarrow>
     (case input_val nd (layers st) 1 of
        Inl e \<Rightarrow> (Some e, st)
      | Inr v1 \<Rightarrow> (None, set_layer node_name (Symbolic (tf_tile v0 v1)) st)))"

section \<open>Resize\<close>

text \<open>
  Python's truth value of the operand \<^verbatim>\<open>roi\<close>, which is \<^verbatim>\<open>None\<close> or a value of the
  Environment: an array without elements is false, an array of one element is as true
  as the element and a longer one has no truth value (\<^verbatim>\<open>ValueError\<close>). The truth
  value of a tensor, its length and its entries are not modelled.
\<close>

definition elem_truth :: "elem \<Rightarrow> bool" where
  "elem_truth e = (case e of ENone \<Rightarrow> False | EInt i \<Rightarrow> i \<noteq> 0 | EFloat r \<Rightarrow> r \<noteq> 0)"

definition truth :: "val option \<Rightarrow> exn + bool" where
  "truth r = (case r of
      None \<Rightarrow> Inr False
    | Some (Constant a) \<Rightarrow>
        (case np_data a of [] \<Rightarrow> Inr False | [e] \<Rightarrow> Inr (elem_truth e) | _ \<Rightarrow> Inl ValueError)
    | Some (Symbolic t) \<Rightarrow> Inl NotModelled)"

text \<open>\<^verbatim>\<open>scales\<close> is the empty list (\<open>None\<close> here) or a value; \<^verbatim>\<open>sizes\<close> is \<^verbatim>\<open>None\<close> or a value.\<close>

definition scales_len :: "val option \<Rightarrow> exn + nat" where
  "scales_len sc = (case sc of
      None \<Rightarrow> Inr 0
    | Some (Constant a) \<Rightarrow> np_len a
    | Some (Symbolic t) \<Rightarrow> Inl NotModelled)"

definition val_item :: "val \<Rightarrow> int \<Rightarrow> exn + elem" where
  "val_item v i = (case v of Constant a \<Rightarrow> np_item a i | Symbolic t \<Rightarrow> Inl NotModelled)"

definition opt_item :: "val option \<Rightarrow> int \<Rightarrow> exn + elem" where
  "opt_item r i = (case r of None \<Rightarrow> Inl TypeError | Some v \<Rightarrow> val_item v i)"

text \<open>\<^verbatim>\<open>int(s * d)\<close> for a scale \<open>s\<close> and a static dimension \<open>d\<close>, and \<^verbatim>\<open>int(s)\<close>.\<close>

definition elem_to_int :: "elem \<Rightarrow> exn + int" where
  "elem_to_int e = (case e of ENone \<Rightarrow> Inl TypeError | EInt i \<Rightarrow> Inr i | EFloat r \<Rightarrow> Inr (trunc r))"

definition scaled :: "elem \<Rightarrow> int option \<Rightarrow> exn + int" where
  "scaled s d = (case (s, d) of
      (EInt i, Some k) \<Rightarrow> Inr (i * k)
    | (EFloat r, Some k) \<Rightarrow> Inr (trunc (r * real_of_int k))
    | _ \<Rightarrow> Inl TypeError)"

text \<open>\<^verbatim>\<open>tf.image.resize(x, size=[h, w], method=method)\<close> on a channel-last tensor.\<close>

definition tf_image_resize :: "tensor \<Rightarrow> int list \<Rightarrow> resize_method \<Rightarrow> tensor" where
  "tf_image_resize x sz m =
     Tensor (OpImageResize x sz m)
       ([dim_at (tshape x) 0] @ map Some sz @ [dim_at (tshape x) 3]) (is_keras x)"

text \<open>
  The source:
  \<^verbatim>\<open>
    input_tensor = layers[node.input[0]]
    roi = None if len(node.input[1]) == 0 else layers[node.input[1]]
    scales = [] if len(node.input[2]) == 0 else layers[node.input[2]]
    sizes = None
    if len(node.input) == 4:
        sizes = layers[node.input[3]]
    if roi:
        raise Exception("Resize with roi not supported")
    if params['mode'] == b'nearest':
        resize_method = tf.image.ResizeMethod.NEAREST_NEIGHBOR
    elif params['mode'] == b'cubic':
        resize_method = tf.image.ResizeMethod.BICUBIC
    elif params['mode'] == b'linear':
        resize_method = tf.image.ResizeMethod.BILINEAR
    else:
        raise Exception("unsupported resize method")
    to_channel_last = keras.layers.Permute((2, 3, 1))(input_tensor)
    if len(scales) > 0:
        if scales[0] != 1 or scales[1] != 1:
            raise Exception("Resize of channels or batch dim not suppported")
        tf_resize_shapes = [int(scales[2] * to_channel_last.shape[1]),
                            int(scales[3] * to_channel_last.shape[2])]
    else:
        if sizes[0] != input_tensor.shape[0] or sizes[1] != input_tensor.shape[1]:
            raise Exception("Resize of channels or batch dim not suppported")
        tf_resize_shapes = [int(sizes[2]), int(sizes[3])]
    resized = tf.image.resize(to_channel_last, size=tf_resize_shapes, method=resize_method)
    to_channel_first = keras.layers.Permute((3, 1, 2))(resized)
    layers[node_name] = to_channel_first
  \<close>
\<close>

definition optional_input :: "node \<Rightarrow> (string \<rightharpoonup> val) \<Rightarrow> nat \<Rightarrow> exn + val option" where
  "optional_input nd ls i =
     (case node_input nd i of
        Inl e \<Rightarrow> Inl e
      | Inr name \<Rightarrow>
         (if length name = 0 then Inr None
          else case layers_get ls name of Inl e \<Rightarrow> Inl e | Inr v \<Rightarrow> Inr (Some v)))"

definition resize_sizes_input :: "node \<Rightarrow> (string \<rightharpoonup> val) \<Rightarrow> exn + val option" where
  "resize_sizes_input nd ls =
     (if length (input nd) = 4
      then (case input_val nd ls 3 of Inl e \<Rightarrow> Inl e | Inr v \<Rightarrow> Inr (Some v))
      else Inr None)"

definition resize_mode :: "params \<Rightarrow> exn + resize_method" where
  "resize_mode p = (case mode p of
      None \<Rightarrow> Inl KeyError
    | Some m \<Rightarrow>
        (if m = ''nearest'' then Inr NEAREST_NEIGHBOR
         else if m = ''cubic'' then Inr BICUBIC
         else if m = ''linear'' then Inr BILINEAR
         else Inl (Exception ''unsupported resize method'')))"

definition differs :: "exn + elem \<Rightarrow> elem \<Rightarrow> exn + bool" where
  "differs r x = (case r of Inl e \<Rightarrow> Inl e | Inr y \<Rightarrow> Inr (\<not> elem_eq y x))"

definition py_or :: "exn + bool \<Rightarrow> exn + bool \<Rightarrow> exn + bool" where
  "py_or a b = (case a of Inl e \<Rightarrow> Inl e | Inr True \<Rightarrow> Inr True | Inr False \<Rightarrow> b)"

definition pair_res :: "exn + int \<Rightarrow> exn + int \<Rightarrow> exn + int list" where
  "pair_res a b =
     (case a of
        Inl e \<Rightarrow> Inl e
      | Inr x \<Rightarrow> (case b of Inl e \<Rightarrow> Inl e | Inr y \<Rightarrow> Inr [x, y]))"

definition elem_res_int :: "exn + elem \<Rightarrow> exn + int" where
  "elem_res_int r = (case r of Inl e \<Rightarrow> Inl e | Inr x \<Rightarrow> elem_to_int x)"

definition scaled_res :: "exn + elem \<Rightarrow> int option \<Rightarrow> exn + int" where
  "scaled_res r d = (case r of Inl e \<Rightarrow> Inl e | Inr x \<Rightarrow> scaled x d)"

definition tf_resize_shapes ::
  "val \<Rightarrow> tensor \<Rightarrow> val option \<Rightarrow> val option \<Rightarrow> exn + int list" where
  "tf_resize_shapes input_tensor to_channel_last scales sizes =
     (case scales_len scales of
        Inl e \<Rightarrow> Inl e
      | Inr n \<Rightarrow>
         (if 0 < n then
            (case py_or (differs (opt_item scales 0) (EInt 1))
                        (differs (opt_item scales 1) (EInt 1)) of
               Inl e \<Rightarrow> Inl e
             | Inr True \<Rightarrow> Inl (Exception ''Resize of channels or batch dim not suppported'')
             | Inr False \<Rightarrow>
                 pair_res (scaled_res (opt_item scales 2) (dim_at (tshape to_channel_last) 1))
                          (scaled_res (opt_item scales 3) (dim_at (tshape to_channel_last) 2)))
          else
            (case py_or (differs (opt_item sizes 0) (shape_entry (dim_at (val_shape input_tensor) 0)))
                        (differs (opt_item sizes 1) (shape_entry (dim_at (val_shape input_tensor) 1))) of
               Inl e \<Rightarrow> Inl e
             | Inr True \<Rightarrow> Inl (Exception ''Resize of channels or batch dim not suppported'')
             | Inr False \<Rightarrow>
                 pair_res (elem_res_int (opt_item sizes 2)) (elem_res_int (opt_item sizes 3)))))"

definition resize_value ::
  "params \<Rightarrow> val \<Rightarrow> val option \<Rightarrow> val option \<Rightarrow> val option \<Rightarrow> exn + val" where
  "resize_value p input_tensor roi scales sizes =
     (case truth roi of
        Inl e \<Rightarrow> Inl e
      | Inr True \<Rightarrow> Inl (Exception ''Resize with roi not supported'')
      | Inr False \<Rightarrow>
     (case resize_mode p of
        Inl e \<Rightarrow> Inl e
      | Inr resize_method \<Rightarrow>
     (case keras_Permute [2, 3, 1] None input_tensor of
        Inl e \<Rightarrow> Inl e
      | Inr to_channel_last \<Rightarrow>
     (case tf_resize_shapes input_tensor to_channel_last scales sizes of
        Inl e \<Rightarrow> Inl e
      | Inr shapes \<Rightarrow>
          sym (keras_Permute [3, 1, 2] None
                 (Symbolic (tf_image_resize to_channel_last shapes resize_method)))))))"

definition convert_resize :: "node \<Rightarrow> string \<Rightarrow> string \<Rightarrow> conv_state \<Rightarrow> outcome" where
  "convert_resize nd node_name keras_name st =
     (case input_val nd (layers st) 0 of
        Inl e \<Rightarrow> (Some e, st)
      | Inr input_tensor \<Rightarrow>
     (case optional_input nd (layers st) 1 of
        Inl e \<Rightarrow> (Some e, st)
      | Inr roi \<Rightarrow>
     (case optional_input nd (layers st) 2 of
        Inl e \<Rightarrow> (Some e, st)
      | Inr scales \<Rightarrow>
     (case resize_sizes_input nd (layers st) of
        Inl e \<Rightarrow> (Some e, st)
      | Inr sizes \<Rightarrow>
          store node_name (resize_value (cs_params st) input_tensor roi scales sizes) st))))"

section \<open>The routines of the module and their effect on the Environment\<close>

text \<open>The lowering routines that \<^verbatim>\<open>reshape_layers.py\<close> defines, in the order of the file.\<close>

definition lowering_routines :: "(node \<Rightarrow> string \<Rightarrow> string \<Rightarrow> conv_state \<Rightarrow> outcome) list" where
  "lowering_routines =
     [convert_transpose, convert_shape, convert_gather, convert_concat, convert_reshape,
      convert_unsqueeze, convert_flatten, convert_slice, convert_squeeze, convert_resize,
      convert_expand, convert_tile]"

text \<open>
  Two states agree off a name when their Environments hold the same entries under every
  other name. A call writes only its own entry when the state it returns agrees with the
  state it started from off the node's name and, if no exception was raised, holds an
  entry under that name.
\<close>

definition agree :: "string \<Rightarrow> conv_state \<Rightarrow> conv_state \<Rightarrow> bool" where
  "agree name st st' = (\<forall>k. k \<noteq> name \<longrightarrow> layers st' k = layers st k)"

definition writes_only :: "string \<Rightarrow> conv_state \<Rightarrow> outcome \<Rightarrow> bool" where
  "writes_only name st r =
     (agree name st (snd r) \<and> (fst r = None \<longrightarrow> (\<exists>y. layers (snd r) name = Some y)))"

text \<open>
  The entry of the slice spec that the loop of the slice lowering computes for the axis
  \<open>k\<close> of the operand.
\<close>

definition spec_entry ::
  "elem list \<Rightarrow> elem list \<Rightarrow> elem list \<Rightarrow> elem list \<Rightarrow> nat \<Rightarrow> exn + slice" where
  "spec_entry axes_positives sts es sps k =
     (case first_index (elem_eq (EInt (int k))) axes_positives of
        None \<Rightarrow> Inr (Slice ENone ENone ENone)
      | Some i \<Rightarrow> slice_entry sts es sps i)"

section \<open>Example inputs\<close>

definition no_params :: params where
  "no_params = \<lparr>perm = None, axis = None, axes = None, is_embedding = False,
     change_ordering = False, starts = None, ends = None, steps = None, mode = None\<rparr>"

definition initial_state :: "params \<Rightarrow> (string \<rightharpoonup> val) \<Rightarrow> conv_state" where
  "initial_state p ls = \<lparr>cs_params = p, layers = ls, lambda_func = Map.empty, warnings = []\<rparr>"

text \<open>A feature map with an unknown batch size, and the target shape \<open>(None, -1)\<close>.\<close>

definition feature_map :: tensor where
  "feature_map = Tensor (OpInput ''x'') [None, Some 3, Some 4, Some 4] True"

definition flatten_target :: ndarray where
  "flatten_target = NdArray DObject [2] [ENone, EInt (- 1)]"

definition reshape_state :: conv_state where
  "reshape_state = initial_state no_params
     [''x'' \<mapsto> Symbolic feature_map, ''shape'' \<mapsto> Constant flatten_target]"

definition dynamic_target_state :: conv_state where
  "dynamic_target_state = initial_state no_params
     [''x'' \<mapsto> Symbolic feature_map, ''shape'' \<mapsto> Symbolic feature_map]"

text \<open>A graph tensor of five axes, a matrix, a vector of ten entries and index arrays.\<close>

definition rank5 :: tensor where
  "rank5 = Tensor (OpInput ''x'') [None, Some 2, Some 3, Some 4, Some 5] True"

definition matrix22 :: ndarray where
  "matrix22 = NdArray DInt64 [2, 2] [EInt 1, EInt 2, EInt 3, EInt 4]"

definition vector10 :: ndarray where
  "vector10 = NdArray DInt64 [10]
     [EInt 0, EInt 1, EInt 2, EInt 3, EInt 4, EInt 5, EInt 6, EInt 7, EInt 8, EInt 9]"

definition first_index_array :: ndarray where
  "first_index_array = NdArray DInt64 [1] [EInt 0]"

definition gather_axis4_state :: conv_state where
  "gather_axis4_state = initial_state (no_params\<lparr>axis := Some 4\<rparr>)
     [''x'' \<mapsto> Symbolic rank5, ''i'' \<mapsto> Constant first_index_array]"

definition gather_axis4_constant_state :: conv_state where
  "gather_axis4_constant_state = initial_state (no_params\<lparr>axis := Some 4\<rparr>)
     [''x'' \<mapsto> Constant matrix22, ''i'' \<mapsto> Constant first_index_array]"

definition gather_axis1_state :: conv_state where
  "gather_axis1_state = initial_state (no_params\<lparr>axis := Some 1\<rparr>)
     [''x'' \<mapsto> Constant matrix22, ''i'' \<mapsto> Constant first_index_array]"

definition slice_state :: conv_state where
  "slice_state = initial_state
     (no_params\<lparr>axes := Some (AxesList [0]), starts := Some [2], ends := Some [2147483647]\<rparr>)
     [''x'' \<mapsto> Constant vector10]"

definition shape_state :: conv_state where
  "shape_state = initial_state no_params
     [''x'' \<mapsto> Symbolic feature_map, ''w'' \<mapsto> Constant first_index_array]"

text \<open>A tensor with an axis of size 1, as the operand of a squeeze node of two inputs.\<close>

definition squeezable :: tensor where
  "squeezable = Tensor (OpInput ''x'') [None, Some 1, Some 3] True"

definition squeeze_state :: conv_state where
  "squeeze_state = initial_state no_params
     [''x'' \<mapsto> Symbolic squeezable, ''axes'' \<mapsto> Constant (NdArray DInt64 [1] [EInt 1])]"

text \<open>Transpose nodes: one that keeps the batch axis and two that move it.\<close>

definition permute_state :: conv_state where
  "permute_state = initial_state (no_params\<lparr>perm := Some [0, 3, 1, 2]\<rparr>)
     [''x'' \<mapsto> Symbolic feature_map]"

definition transpose_matrix_state :: conv_state where
  "transpose_matrix_state = initial_state (no_params\<lparr>perm := Some [1, 0]\<rparr>)
     [''x'' \<mapsto> Constant matrix22]"

definition transpose_tensor_state :: conv_state where
  "transpose_tensor_state = initial_state (no_params\<lparr>perm := Some [1, 0, 2, 3]\<rparr>)
     [''x'' \<mapsto> Symbolic feature_map]"


section \<open>Basic facts about the state\<close>

lemma layers_set_layer [simp]: "layers (set_layer n v st) = (layers st)(n \<mapsto> v)"
  by (simp add: set_layer_def)

lemma layers_warn [simp]: "layers (warn m st) = layers st"
  by (simp add: warn_def)

lemma cs_params_set_layer [simp]: "cs_params (set_layer n v st) = cs_params st"
  by (simp add: set_layer_def)

lemma input_val_Inr:
  "input_val nd ls i = Inr v \<longleftrightarrow> (\<exists>name. node_input nd i = Inr name \<and> ls name = Some v)"
  by (auto simp add: input_val_def layers_get_def split: sum.splits option.splits)


section \<open>Every routine writes only the entry of its node\<close>

lemma agree_refl [simp]: "agree name st st"
  by (simp add: agree_def)

lemma agree_warn [simp]: "agree name st (warn m st') = agree name st st'"
  by (simp add: agree_def)

lemma agree_set_layer [simp]: "agree name st (set_layer name v st') = agree name st st'"
  by (simp add: agree_def)

lemma agree_lambda [simp]: "agree name st (st'\<lparr>lambda_func := f\<rparr>) = agree name st st'"
  by (simp add: agree_def)

lemma agree_params [simp]: "agree name st (st'\<lparr>cs_params := p\<rparr>) = agree name st st'"
  by (simp add: agree_def)

lemma wo_raise [simp]: "writes_only name st (Some e, st') = agree name st st'"
  by (simp add: writes_only_def)

lemma wo_set [simp]: "writes_only name st (None, set_layer name v st') = agree name st st'"
  by (simp add: writes_only_def agree_def)

lemma wo_store [simp]: "writes_only name st (store name r st') = agree name st st'"
  by (cases r) (simp_all add: store_def)

lemma wo_squeeze: "writes_only nn st (convert_squeeze nd nn kn st)"
  by (simp add: convert_squeeze_def Let_def py_assert_def split: sum.splits option.splits)

lemma wo_transpose: "writes_only nn st (convert_transpose nd nn kn st)"
  by (simp add: convert_transpose_def Let_def
        split: sum.splits option.splits list.splits val.splits)

lemma wo_shape: "writes_only nn st (convert_shape nd nn kn st)"
  by (simp add: convert_shape_def Let_def split: sum.splits option.splits)

lemma wo_gather_graph: "writes_only nn st (gather_graph nn kn v0 v1 st)"
  by (simp add: gather_graph_def Let_def split: sum.splits option.splits)

lemma wo_gather: "writes_only nn st (convert_gather nd nn kn st)"
  by (simp add: convert_gather_def Let_def wo_gather_graph split: sum.splits option.splits)

lemma wo_concat: "writes_only nn st (convert_concat nd nn kn st)"
  by (simp add: convert_concat_def Let_def split: sum.splits option.splits)

lemma wo_reshape_nhwc: "writes_only nn st (reshape_nhwc nn kn x a st)"
  by (simp add: reshape_nhwc_def Let_def split: sum.splits option.splits)

lemma wo_reshape: "writes_only nn st (convert_reshape nd nn kn st)"
  by (simp add: convert_reshape_def Let_def wo_reshape_nhwc
        split: sum.splits option.splits val.splits prod.splits)

text \<open>The loop of the unsqueeze lowering rewrites the entry it started with.\<close>

lemma wo_expand_loop:
  "agree nn st st' \<Longrightarrow> layers st' nn = Some v \<Longrightarrow> writes_only nn st (expand_loop nn xs st')"
proof (induction xs arbitrary: st' v)
  case Nil
  then show ?case by (simp add: writes_only_def)
next
  case (Cons x xs)
  show ?case
  proof (cases v)
    case (Constant a)
    show ?thesis
    proof (cases "np_expand_dims a x")
      case (Inl e)
      with Cons.prems Constant show ?thesis by (simp add: layers_get_def)
    next
      case (Inr b)
      have "writes_only nn st (expand_loop nn xs (set_layer nn (Constant b) st'))"
        by (rule Cons.IH [where v = "Constant b"]) (simp_all add: Cons.prems)
      with Cons.prems Constant Inr show ?thesis by (simp add: layers_get_def)
    qed
  next
    case (Symbolic t)
    with Cons.prems show ?thesis by (simp add: layers_get_def)
  qed
qed

lemma wo_unsqueeze: "writes_only nn st (convert_unsqueeze nd nn kn st)"
proof (cases "unsqueeze_axes nd st")
  case (Inl e)
  then show ?thesis by (simp add: convert_unsqueeze_def)
next
  case (Inr st1)
  then have ag: "agree nn st st1"
    by (auto simp add: unsqueeze_axes_def split: if_splits sum.splits)
  have loop: "writes_only nn st (expand_loop nn xs (set_layer nn v st1))" for xs v
    by (rule wo_expand_loop [where v = v]) (simp_all add: ag)
  show ?thesis
    using Inr ag
    by (simp add: convert_unsqueeze_def Let_def loop split: sum.splits option.splits)
qed

lemma wo_flatten: "writes_only nn st (convert_flatten nd nn kn st)"
  by (simp add: convert_flatten_def Let_def split: sum.splits option.splits)

lemma wo_slice: "writes_only nn st (convert_slice nd nn kn st)"
  by (simp add: convert_slice_def Let_def split: sum.splits option.splits)

lemma wo_resize: "writes_only nn st (convert_resize nd nn kn st)"
  by (simp add: convert_resize_def Let_def split: sum.splits option.splits)

lemma wo_expand: "writes_only nn st (convert_expand nd nn kn st)"
  by (simp add: convert_expand_def Let_def py_assert_def split: sum.splits option.splits)

lemma wo_tile: "writes_only nn st (convert_tile nd nn kn st)"
  by (simp add: convert_tile_def Let_def split: sum.splits option.splits)

text \<open>
  Claim C8, as the code has it: a lowering routine leaves every entry of the Environment
  under a name other than the node's own as it was, whether it returns or raises, and
  when it returns the Environment holds an entry under the node's name. The entry under
  the node's own name is overwritten when there was one.
\<close>

theorem lowering_writes_only_own_entry:
  assumes "f \<in> set lowering_routines"
  shows "(\<forall>k. k \<noteq> node_name \<longrightarrow> layers (snd (f nd node_name keras_name st)) k = layers st k)
         \<and> (fst (f nd node_name keras_name st) = None \<longrightarrow>
              (\<exists>v. layers (snd (f nd node_name keras_name st)) node_name = Some v))"
proof -
  from assms have "writes_only node_name st (f nd node_name keras_name st)"
    by (auto simp add: lowering_routines_def wo_transpose wo_shape wo_gather wo_concat
          wo_reshape wo_unsqueeze wo_flatten wo_slice wo_squeeze wo_resize wo_expand wo_tile)
  then show ?thesis by (simp add: writes_only_def agree_def)
qed

theorem lowering_writes_only_own_entry_witness:
  "convert_shape \<in> set lowering_routines \<and> ''w'' \<noteq> ''y''
   \<and> layers (snd (convert_shape \<lparr>input = [''x'']\<rparr> ''y'' ''y'' shape_state)) ''w''
       = layers shape_state ''w''
   \<and> fst (convert_shape \<lparr>input = [''x'']\<rparr> ''y'' ''y'' shape_state) = None
   \<and> layers (snd (convert_shape \<lparr>input = [''x'']\<rparr> ''y'' ''y'' shape_state)) ''y''
       = Some (Constant (np_array [ENone, EInt 3, EInt 4, EInt 4]))"
  using lowering_writes_only_own_entry
    [of convert_shape "''y''" "\<lparr>input = [''x'']\<rparr>" "''y''" shape_state]
  by (simp add: lowering_routines_def convert_shape_def shape_state_def initial_state_def
        input_val_def node_input_def layers_get_def ensure_tf_type_def feature_map_def
        shape_entry_def)

text \<open>
  The claim as the spec states it fails when the node's name is already a key of the
  Environment: the shape lowering, called for a node named like its input, returns
  normally and the entry that was there is gone.
\<close>

theorem lowering_overwrites_own_entry_counterexample:
  "layers shape_state ''x'' = Some (Symbolic feature_map)
   \<and> fst (convert_shape \<lparr>input = [''x'']\<rparr> ''x'' ''x'' shape_state) = None
   \<and> layers (snd (convert_shape \<lparr>input = [''x'']\<rparr> ''x'' ''x'' shape_state)) ''x''
       \<noteq> Some (Symbolic feature_map)"
  by (simp add: convert_shape_def shape_state_def initial_state_def input_val_def node_input_def
        layers_get_def)

section \<open>Squeeze\<close>

text \<open>
  Claim C7 says that a squeeze node with more than one input is refused. The routine
  does not refuse it: for a node of two inputs it ignores the second input, raises
  nothing and stores the squeeze of the first input over every axis of size 1.
\<close>

theorem squeeze_two_inputs_not_rejected:
  "convert_squeeze \<lparr>input = [''x'', ''axes'']\<rparr> ''y'' ''y_squeeze'' squeeze_state
     = (None, set_layer ''y'' (Symbolic (tf_squeeze squeezable None)) squeeze_state)"
  by (simp add: convert_squeeze_def py_assert_def input_val_def node_input_def layers_get_def
        squeeze_state_def initial_state_def no_params_def ensure_tf_type_def)

section \<open>Transpose\<close>

lemma valid_perm_tail:
  assumes "valid_perm (0 # ps) n"
  shows "valid_perm (map (\<lambda>d. d - 1) ps) (length ps) \<and> n = Suc (length ps)"
proof -
  from assms have len: "n = Suc (length ps)" and d: "distinct ps" and z: "0 \<notin> set ps"
    and r: "\<forall>i\<in>set ps. 0 \<le> i \<and> i < int n"
    by (auto simp add: valid_perm_def list_all_iff)
  have "inj_on (\<lambda>d::int. d - 1) (set ps)" by (simp add: inj_on_def)
  with d have "distinct (map (\<lambda>d. d - 1) ps)" by (simp add: distinct_map)
  moreover have "\<forall>i\<in>set ps. 0 \<le> i - 1 \<and> i - 1 < int (length ps)"
  proof
    fix i assume "i \<in> set ps"
    with r z len have "0 \<le> i" "i < int (Suc (length ps))" "i \<noteq> 0" by auto
    then show "0 \<le> i - 1 \<and> i - 1 < int (length ps)" by simp
  qed
  ultimately show ?thesis using len
    by (simp add: valid_perm_def list_all_iff)
qed

lemma np_transpose_ok:
  assumes "valid_perm p (np_ndim a)"
  shows "\<exists>b. np_transpose a p = Inr b"
proof -
  from assms have "map (\<lambda>i. norm_axis i (np_ndim a)) p = p"
    by (auto simp add: valid_perm_def list_all_iff norm_axis_def intro!: map_idI)
  with assms show ?thesis by (simp add: np_transpose_def Let_def)
qed

text \<open>
  Claim C5: for a transpose node whose input is in the Environment and whose \<open>perm\<close> is a
  permutation of the axes of that input, the routine raises nothing. When \<open>perm\<close> keeps
  axis 0 it stores the \<open>Permute\<close> node over the remaining axes, without a warning. When
  \<open>perm\<close> moves axis 0 it logs the warning and stores the array transposed on the host
  when the input is an array (after a second warning), and the raw transpose node over
  all axes when the input is a tensor.
\<close>

theorem transpose_lowering:
  assumes "node_input nd 0 = Inr name" and "layers st name = Some v"
    and "perm (cs_params st) = Some (p0 # ps)"
    and "valid_perm (p0 # ps) (length (val_shape v))"
  shows "if p0 = 0
         then convert_transpose nd node_name keras_name st =
                (None, set_layer node_name
                   (Symbolic (Tensor (OpPermute ps (Some keras_name) v)
                                (dim_at (val_shape v) 0 # map (dim_at (val_shape v)) ps)
                                (val_is_keras v))) st)
         else (case v of
                 Constant a \<Rightarrow>
                   (\<exists>b. np_transpose a (p0 # ps) = Inr b \<and>
                     convert_transpose nd node_name keras_name st =
                       (None, set_layer node_name (Constant b)
                          (warn ''Transposing numpy array.''
                          (warn ''Can't permute batch dimension. Result may be wrong.'' st))))
               | Symbolic t \<Rightarrow>
                   convert_transpose nd node_name keras_name st =
                     (None, set_layer node_name
                        (Symbolic (Tensor (OpTranspose v (p0 # ps))
                                     (map (dim_at (tshape t)) (p0 # ps)) (is_keras t)))
                        (warn ''Can't permute batch dimension. Result may be wrong.'' st)))"
proof (cases "p0 = 0")
  case True
  with assms(4) have "valid_perm (map (\<lambda>d. d - 1) ps) (length ps)"
    and "length (val_shape v) = Suc (length ps)"
    using valid_perm_tail by auto
  with True assms(1-3) show ?thesis
    by (simp add: convert_transpose_def layers_get_def keras_Permute_def sym_def store_def)
next
  case False
  show ?thesis
  proof (cases v)
    case (Constant a)
    with assms(4) have "valid_perm (p0 # ps) (np_ndim a)"
      by (simp add: val_shape_def np_ndim_def)
    then obtain b where "np_transpose a (p0 # ps) = Inr b"
      using np_transpose_ok by blast
    with False Constant assms(1-3) show ?thesis
      by (simp add: convert_transpose_def layers_get_def const_def store_def Let_def)
  next
    case (Symbolic t)
    with False assms show ?thesis
      by (simp add: convert_transpose_def layers_get_def tf_transpose_def sym_def store_def
            Let_def val_shape_def val_is_keras_def)
  qed
qed

lemma transpose_matrix22: "np_transpose matrix22 [1, 0]
    = Inr (NdArray DInt64 [2, 2] [EInt 1, EInt 3, EInt 2, EInt 4])"
  by code_simp

theorem transpose_lowering_witness:
  "convert_transpose \<lparr>input = [''x'']\<rparr> ''y'' ''y'' permute_state =
     (None, set_layer ''y''
        (Symbolic (Tensor (OpPermute [3, 1, 2] (Some ''y'') (Symbolic feature_map))
                     [None, Some 4, Some 3, Some 4] True)) permute_state)
   \<and> convert_transpose \<lparr>input = [''x'']\<rparr> ''y'' ''y'' transpose_matrix_state =
     (None, set_layer ''y'' (Constant (NdArray DInt64 [2, 2] [EInt 1, EInt 3, EInt 2, EInt 4]))
        (warn ''Transposing numpy array.''
        (warn ''Can't permute batch dimension. Result may be wrong.'' transpose_matrix_state)))
   \<and> convert_transpose \<lparr>input = [''x'']\<rparr> ''y'' ''y'' transpose_tensor_state =
     (None, set_layer ''y''
        (Symbolic (Tensor (OpTranspose (Symbolic feature_map) [1, 0, 2, 3])
                     [Some 3, None, Some 4, Some 4] True))
        (warn ''Can't permute batch dimension. Result may be wrong.'' transpose_tensor_state))"
  using transpose_lowering [of "\<lparr>input = [''x'']\<rparr>" "''x''" permute_state
          "Symbolic feature_map" 0 "[3, 1, 2]" "''y''" "''y''"]
        transpose_lowering [of "\<lparr>input = [''x'']\<rparr>" "''x''" transpose_matrix_state
          "Constant matrix22" 1 "[0]" "''y''" "''y''"]
        transpose_lowering [of "\<lparr>input = [''x'']\<rparr>" "''x''" transpose_tensor_state
          "Symbolic feature_map" 1 "[0, 2, 3]" "''y''" "''y''"]
        transpose_matrix22
  by (simp add: node_input_def permute_state_def transpose_matrix_state_def
        transpose_tensor_state_def initial_state_def no_params_def valid_perm_def
        val_shape_def val_is_keras_def feature_map_def matrix22_def dim_at_def)

section \<open>Shape\<close>



section \<open>Gather\<close>

text \<open>
  Claim C2, as the code has it: when the data operand and the index operand are both
  compile-time arrays and the node is not flagged as an embedding lookup, an axis of 4
  or more raises the configuration error and the state is left as it was.
\<close>

theorem gather_constant_fold_axis_bound:
  assumes "input_val nd (layers st) 0 = Inr v0" and "input_val nd (layers st) 1 = Inr v1"
    and "is_numpy v0" and "is_numpy v1" and "\<not> is_embedding (cs_params st)"
    and "axis (cs_params st) = Some ax" and "4 \<le> ax"
  shows "convert_gather nd node_name keras_name st =
           (Some (AttributeError ''Can't gather by axis more than 3.''), st)"
proof -
  from assms(1) obtain name0 where "node_input nd 0 = Inr name0" "layers st name0 = Some v0"
    by (auto simp add: input_val_Inr)
  with assms show ?thesis
    by (simp add: convert_gather_def layers_get_def gather_numpy_def)
qed

theorem gather_constant_fold_axis_bound_witness:
  "convert_gather \<lparr>input = [''x'', ''i'']\<rparr> ''y'' ''y'' gather_axis4_constant_state
     = (Some (AttributeError ''Can't gather by axis more than 3.''), gather_axis4_constant_state)"
  using gather_constant_fold_axis_bound [of "\<lparr>input = [''x'', ''i'']\<rparr>"
      gather_axis4_constant_state "Constant matrix22" "Constant first_index_array" 4
      "''y''" "''y''"]
  by (simp add: gather_axis4_constant_state_def initial_state_def no_params_def input_val_def
        node_input_def layers_get_def is_numpy_def)

text \<open>
  The claim as the spec states it fails on the graph path, where the axis is not
  checked: a gather along axis 4 of a graph tensor of five axes raises nothing and
  stores the gather node.
\<close>

theorem gather_axis4_graph_path_counterexample:
  "axis (cs_params gather_axis4_state) = Some 4
   \<and> fst (convert_gather \<lparr>input = [''x'', ''i'']\<rparr> ''y'' ''y'' gather_axis4_state) = None
   \<and> layers (snd (convert_gather \<lparr>input = [''x'', ''i'']\<rparr> ''y'' ''y'' gather_axis4_state)) ''y''
       = Some (Symbolic (tf_gather rank5 (Constant first_index_array) 4))"
  by (simp add: convert_gather_def gather_axis4_state_def initial_state_def no_params_def
        node_input_def layers_get_def input_val_def is_numpy_def gather_graph_def
        gather_indices_def ensure_tf_type_def set_layer_def)

text \<open>
  Claim C3 says that the constant-fold path indexes the data operand along the axes 0
  to 3. For axis 1 (and likewise 2 and 3) the routine subscripts the dictionary
  \<^verbatim>\<open>layers\<close> instead of the array, which raises: a gather of the first column of a
  matrix ends in a \<^verbatim>\<open>TypeError\<close> and no entry is written.
\<close>

theorem gather_axis1_constant_fold_raises:
  "convert_gather \<lparr>input = [''x'', ''i'']\<rparr> ''y'' ''y'' gather_axis1_state
     = (Some TypeError, gather_axis1_state)"
  by (simp add: convert_gather_def gather_axis1_state_def initial_state_def no_params_def
        node_input_def layers_get_def input_val_def is_numpy_def gather_numpy_def
        gather_subscript_def dict_getitem_def)

text \<open>For axis 0 the routine does what the claim says: it stores the indexed array.\<close>

lemma gather_axis0_constant_folds:
  assumes "node_input nd 0 = Inr name0" and "layers st name0 = Some (Constant a)"
    and "input_val nd (layers st) 1 = Inr (Constant idx)"
    and "\<not> is_embedding (cs_params st)" and "axis (cs_params st) = Some 0"
    and "np_take0 a idx = Inr g" and "np_dtype a \<noteq> DObject"
  shows "convert_gather nd node_name keras_name st = (None, set_layer node_name (Constant g) st)"
proof -
  from assms(6,7) have "np_dtype g \<noteq> DObject"
    by (auto simp add: np_take0_def split: list.splits if_splits sum.splits)
  with assms show ?thesis
    by (simp add: convert_gather_def layers_get_def gather_numpy_def is_numpy_def
          gather_subscript_def dict_getitem_def val_index_def gather_astype_def store_def
          const_def)
qed

section \<open>Reshape\<close>

lemma reshape_plain_wildcard:
  assumes "tshape x = [None, Some 3, Some 4, Some 4]"
  shows "reshape_plain kn x (NdArray dt [2] [ENone, EInt (- 1)])
           = Inr (ReshapeEnd, tf_reshape_dyn x [DimOfShape 0, DimLit (- 1)])"
  using assms
  by (simp add: reshape_plain_def Let_def shape_entry_def np_len_def np_equal_def elem_eq_def
        elem_num_def np_argmin_def np_argmax_def is_reshape_end_def np_item_def norm_axis_def
        reshape_end_target_def)

text \<open>
  Claim C1, as the code has it: with the ordering kept, a graph tensor of static shape
  \<open>(None, 3, 4, 4)\<close> and the target array \<open>(None, -1)\<close>, the routine takes its first
  branch, the reshape to the run-time list \<open>[tf.shape(x)[0], -1]\<close>, and stores that
  node; run on an input of batch size 1 the node gives the shape \<open>(1, 48)\<close>.
\<close>

theorem reshape_wildcard_takes_reshape_end:
  assumes "input_val nd (layers st) 0 = Inr (Symbolic x)"
    and "input_val nd (layers st) 1 = Inr (Constant (NdArray dt [2] [ENone, EInt (- 1)]))"
    and "\<not> change_ordering (cs_params st)"
    and "tshape x = [None, Some 3, Some 4, Some 4]"
  shows "reshape_plain keras_name x (NdArray dt [2] [ENone, EInt (- 1)])
           = Inr (ReshapeEnd, tf_reshape_dyn x [DimOfShape 0, DimLit (- 1)])
         \<and> convert_reshape nd node_name keras_name st
           = (None, set_layer node_name
                (Symbolic (tf_reshape_dyn x [DimOfShape 0, DimLit (- 1)])) st)
         \<and> run_reshape_dyn [1, 3, 4, 4] [DimOfShape 0, DimLit (- 1)] = Inr [1, 48]"
  using assms reshape_plain_wildcard [OF assms(4), of keras_name dt]
  by (simp add: convert_reshape_def ensure_tf_type_def run_reshape_dyn_def Let_def)

theorem reshape_wildcard_takes_reshape_end_witness:
  "convert_reshape \<lparr>input = [''x'', ''shape'']\<rparr> ''y'' ''y'' reshape_state
     = (None, set_layer ''y''
          (Symbolic (tf_reshape_dyn feature_map [DimOfShape 0, DimLit (- 1)])) reshape_state)
   \<and> run_reshape_dyn [1, 3, 4, 4] [DimOfShape 0, DimLit (- 1)] = Inr [1, 48]"
  using reshape_wildcard_takes_reshape_end [of "\<lparr>input = [''x'', ''shape'']\<rparr>" reshape_state
      feature_map DObject "''y''" "''y''"]
  by (simp add: reshape_state_def initial_state_def no_params_def input_val_def node_input_def
        layers_get_def flatten_target_def feature_map_def)

text \<open>
  The claim as the spec states it fails: on that input the flatten branch is not the
  branch the routine takes.
\<close>

theorem reshape_wildcard_not_flatten_counterexample:
  "reshape_plain ''y'' feature_map flatten_target
     \<noteq> Inr (FlattenBranch, keras_Flatten (Some ''y'') (Symbolic feature_map))"
  using reshape_plain_wildcard [of feature_map "''y''" DObject]
  by (simp add: feature_map_def flatten_target_def)

text \<open>
  Claim C4: when the value of the target-shape operand is not a compile-time array, the
  routine raises and leaves the state as it was. The exception is the
  \<^verbatim>\<open>AttributeError\<close> of the routine when the first operand is in the Environment, and
  the exception of the failed lookup of the first operand otherwise.
\<close>

theorem reshape_dynamic_target_raises:
  assumes "input_val nd (layers st) 1 = Inr v1" and "\<not> is_numpy v1"
  shows "convert_reshape nd node_name keras_name st =
           (Some (case input_val nd (layers st) 0 of
                    Inl e \<Rightarrow> e
                  | Inr v0 \<Rightarrow> AttributeError ''Can't reshape dynamic size.''), st)"
  using assms
  by (cases v1) (simp_all add: convert_reshape_def is_numpy_def split: sum.splits)

theorem reshape_dynamic_target_raises_witness:
  "convert_reshape \<lparr>input = [''x'', ''shape'']\<rparr> ''y'' ''y'' dynamic_target_state
     = (Some (AttributeError ''Can't reshape dynamic size.''), dynamic_target_state)"
  using reshape_dynamic_target_raises [of "\<lparr>input = [''x'', ''shape'']\<rparr>" dynamic_target_state
      "Symbolic feature_map" "''y''" "''y''"]
  by (simp add: dynamic_target_state_def initial_state_def no_params_def input_val_def
        node_input_def layers_get_def is_numpy_def)

section \<open>Slice\<close>

lemma slice_spec_loop_entries:
  assumes "slice_spec_loop ks ap sts es sps (spec0, l0) = Inr (spec, l)"
  shows "length spec = length spec0 + length ks \<and> take (length spec0) spec = spec0
         \<and> (\<forall>j<length ks. spec_entry ap sts es sps (ks ! j) = Inr (spec ! (length spec0 + j)))"
  using assms
proof (induction ks arbitrary: spec0 l0)
  case Nil
  then show ?case by simp
next
  case (Cons k ks)
  obtain x l1 where step: "slice_spec_loop ks ap sts es sps (spec0 @ [x], l1) = Inr (spec, l)"
    and x: "spec_entry ap sts es sps k = Inr x"
    using Cons.prems by (auto simp add: spec_entry_def split: option.splits sum.splits)
  from Cons.IH [OF step]
  have len: "length spec = Suc (length spec0) + length ks"
    and tk: "take (Suc (length spec0)) spec = spec0 @ [x]"
    and rest: "\<And>j. j < length ks \<Longrightarrow>
                 spec_entry ap sts es sps (ks ! j) = Inr (spec ! (Suc (length spec0) + j))"
    by simp_all
  have "take (length spec0) (take (Suc (length spec0)) spec) = take (length spec0) (spec0 @ [x])"
    by (simp only: tk)
  then have tk0: "take (length spec0) spec = spec0" by simp
  have "(take (Suc (length spec0)) spec) ! length spec0 = (spec0 @ [x]) ! length spec0"
    by (simp only: tk)
  then have at: "spec ! length spec0 = x" by simp
  show ?case
  proof (intro conjI allI impI)
    show "length spec = length spec0 + length (k # ks)" using len by simp
    show "take (length spec0) spec = spec0" by (rule tk0)
    fix j assume j: "j < length (k # ks)"
    show "spec_entry ap sts es sps ((k # ks) ! j) = Inr (spec ! (length spec0 + j))"
    proof (cases j)
      case 0
      with x at show ?thesis by simp
    next
      case (Suc j')
      with j have "j' < length ks" by simp
      from rest [OF this] Suc show ?thesis by simp
    qed
  qed
qed

lemma slice_entry_open:
  assumes "slice_entry sts es sps i = Inr sl" and "es ! i = EInt e" and "2147483647 \<le> e"
  shows "sl = Slice (sts ! i) (sps ! i) ENone"
proof -
  from assms(3) have "elem_less (EInt e) (EInt 2147483647) = Inr False"
    by (simp add: elem_less_def elem_num_def)
  with assms(1,2) show ?thesis
    by (auto simp add: slice_entry_def list_get_def split: sum.splits if_splits)
qed

lemma slice_vector10:
  "fst (convert_slice \<lparr>input = [''x'']\<rparr> ''y'' ''y'' slice_state) = None \<and>
   layers (snd (convert_slice \<lparr>input = [''x'']\<rparr> ''y'' ''y'' slice_state)) ''y''
     = Some (Constant (NdArray DInt64 [8]
         [EInt 2, EInt 3, EInt 4, EInt 5, EInt 6, EInt 7, EInt 8, EInt 9]))"
  by code_simp

lemma first_index_less: "first_index P xs = Some i \<Longrightarrow> i < length xs"
  by (induction xs arbitrary: i) (auto split: if_splits)

lemma map_res_length: "map_res f xs = Inr ys \<Longrightarrow> length ys = length xs"
  by (induction xs arbitrary: ys) (auto split: sum.splits)

lemma slice_entry_total:
  assumes "i < length sts" and "i < length es" and "i < length sps" and "es ! i \<noteq> ENone"
  shows "\<exists>sl. slice_entry sts es sps i = Inr sl"
  using assms
  by (cases "es ! i") (simp_all add: slice_entry_def list_get_def elem_less_def elem_num_def)

lemma slice_spec_loop_total:
  assumes "\<And>i. i < length ap \<Longrightarrow> \<exists>sl. slice_entry sts es sps i = Inr sl"
  shows "\<exists>spec l. slice_spec_loop ks ap sts es sps acc = Inr (spec, l)"
proof (induction ks arbitrary: acc)
  case Nil
  then show ?case by (cases acc) simp
next
  case (Cons k ks)
  obtain spec0 l0 where acc: "acc = (spec0, l0)" by (cases acc)
  show ?case
  proof (cases "first_index (elem_eq (EInt (int k))) ap")
    case None
    with acc Cons.IH show ?thesis by simp
  next
    case (Some i)
    then have "i < length ap" by (rule first_index_less)
    then obtain sl where "slice_entry sts es sps i = Inr sl" using assms by blast
    with acc Some Cons.IH show ?thesis by simp
  qed
qed

text \<open>
  Claim C6: for a slice whose \<open>starts\<close>, \<open>ends\<close> and \<open>steps\<close> have one entry per named
  axis and whose end values are numbers, the loop of the slice lowering builds the slice
  spec, and the entry of an axis \<open>k\<close> that the slice names (at position \<open>i\<close> of the
  normalised axes, the first one that equals \<open>k\<close>) whose end value is 2147483647 or more
  has the start and the step given for it and no stop. And the slice of a vector of ten
  entries with \<open>starts = [2]\<close> and \<open>ends = [2147483647]\<close> on axis 0 is the vector of its
  entries at the positions 2 to 9.
\<close>

theorem slice_sentinel_open_ended:
  assumes "map_res (axis_positive n) axs = Inr axes_positives"
    and "length sts = length axs" and "length es = length axs" and "length sps = length axs"
    and "list_all (\<lambda>x. x \<noteq> ENone) es"
    and "k < n" and "first_index (elem_eq (EInt (int k))) axes_positives = Some i"
    and "es ! i = EInt e" and "2147483647 \<le> e"
  shows "(\<exists>spec l. slice_spec_param n (sts, es, axs, sps) = Inr (spec, l)
            \<and> length spec = n \<and> spec ! k = Slice (sts ! i) (sps ! i) ENone)
         \<and> fst (convert_slice \<lparr>input = [''x'']\<rparr> ''y'' ''y'' slice_state) = None
         \<and> layers (snd (convert_slice \<lparr>input = [''x'']\<rparr> ''y'' ''y'' slice_state)) ''y''
             = Some (Constant (NdArray DInt64 [8]
                 [EInt 2, EInt 3, EInt 4, EInt 5, EInt 6, EInt 7, EInt 8, EInt 9]))"
proof -
  from assms(1) have len: "length axes_positives = length axs"
    by (rule map_res_length)
  have "\<exists>sl. slice_entry sts es sps j = Inr sl" if "j < length axes_positives" for j
  proof -
    from that len assms(3) have "j < length es" by simp
    with assms(5) have "es ! j \<noteq> ENone" by (simp add: list_all_length)
    with that len assms(2-4) show ?thesis by (simp add: slice_entry_total)
  qed
  then obtain spec l
    where loop: "slice_spec_loop [0..<n] axes_positives sts es sps ([], None) = Inr (spec, l)"
    using slice_spec_loop_total by blast
  with assms(1) have param: "slice_spec_param n (sts, es, axs, sps) = Inr (spec, l)"
    by (simp add: slice_spec_param_def)
  from slice_spec_loop_entries [OF loop] assms(6)
  have n: "length spec = n" and "spec_entry axes_positives sts es sps k = Inr (spec ! k)"
    by (auto dest!: spec [where x = k])
  with assms(7) have "slice_entry sts es sps i = Inr (spec ! k)"
    by (simp add: spec_entry_def)
  from slice_entry_open [OF this assms(8,9)] param n slice_vector10 show ?thesis by simp
qed

lemma slice_spec_param_example:
  "slice_spec_param 1 ([EInt 2], [EInt 2147483647], [EInt 0], [ENone])
     = Inr ([Slice (EInt 2) ENone ENone], Some (Slice (EInt 2) ENone ENone))"
  by code_simp

theorem slice_sentinel_open_ended_witness:
  "slice_spec_param 1 ([EInt 2], [EInt 2147483647], [EInt 0], [ENone])
     = Inr ([Slice (EInt 2) ENone ENone], Some (Slice (EInt 2) ENone ENone))
   \<and> py_slice 10 (Slice (EInt 2) ENone ENone) = Inr [2, 3, 4, 5, 6, 7, 8, 9]
   \<and> layers (snd (convert_slice \<lparr>input = [''x'']\<rparr> ''y'' ''y'' slice_state)) ''y''
       = Some (Constant (NdArray DInt64 [8]
           [EInt 2, EInt 3, EInt 4, EInt 5, EInt 6, EInt 7, EInt 8, EInt 9]))"
proof -
  have p: "py_slice 10 (Slice (EInt 2) ENone ENone) = Inr [2, 3, 4, 5, 6, 7, 8, 9]"
    by code_simp
  have a: "map_res (axis_positive 1) [EInt 0] = Inr [EInt 0]"
    by (simp add: axis_positive_def)
  have f: "first_index (elem_eq (EInt (int 0))) [EInt 0] = Some 0"
    by (simp add: elem_eq_def elem_num_def)
  from slice_sentinel_open_ended [OF a _ _ _ _ _ f, of "[EInt 2]" "[EInt 2147483647]" "[ENone]"
      2147483647]
  show ?thesis using slice_spec_param_example p by simp
qed

section \<open>Unsqueeze\<close>






end
